theory Spec2Isabelle
  imports Complex_Main "HOL-Library.Monad_Syntax"
begin

section \<open>The inheritance vault: storage, validation, lifecycle and status\<close>

text \<open>
  The development embeds the vault engine of the repository: the persistence store
  (\<^verbatim>\<open>vault/utils/delegation-storage.ts\<close>), the time helpers
  (\<^verbatim>\<open>vault/utils/time-helpers.ts\<close>), the validators, and the lifecycle operations
  \<^verbatim>\<open>setupBeneficiaries\<close>, \<^verbatim>\<open>checkIn\<close>, \<^verbatim>\<open>claimInheritance\<close>, \<^verbatim>\<open>simpleClaim\<close> and
  \<^verbatim>\<open>getVaultStatus\<close>.

  Conventions.
  \<^item> A \<^verbatim>\<open>bigint\<close> is an \<open>int\<close>. A \<^verbatim>\<open>number\<close> holding a count, a period or Unix
    seconds is an \<open>int\<close>, which is what the doubles of the source compute as long as
    the values are whole and stay safe integers; the display percentage is a \<open>rat\<close>.
  \<^item> Every \<^verbatim>\<open>throw\<close> is a value \<open>Inl e\<close>; an operation that touches the store
    returns its result together with the store it leaves behind.
  \<^item> \<^verbatim>\<open>Date.now()\<close> is not read inside the model: each clock reading an operation makes
    is an argument (one field of a clock record per reading site; the reading inside
    the loop of \<open>setupBeneficiaries\<close> is a function of the iteration).
  \<^item> The chain and the delegation framework are arguments as well (record
    \<open>Externals\<close>): address check, balance, delegation construction, signing, hashing,
    disabling, receipts and the claim transaction. A signed-delegation object is an
    uninterpreted token the engine only stores and hands back.
  \<^item> A call into the chain or the framework that can throw has an outcome type (key
    parsing, caveat and delegation construction, signing, disabling, receipts, the
    claim transaction); the balance query and the construction of the clients are
    taken to return. Console output and the human-readable duration string are left
    out.
  \<^item> The store maps a lower-cased vault address to the JSON document written for it.
    Both backends (browser-local and file) key a document by the lower-cased address,
    so one map stands for whichever backend is selected. Writing to the backend is
    taken to succeed.
\<close>

subsection \<open>JavaScript values and the JSON walk\<close>

text \<open>
  \<open>jsval\<close> is the value tree \<^verbatim>\<open>JSON.stringify\<close> walks and \<^verbatim>\<open>JSON.parse\<close> builds. A
  stored document is such a tree without \<open>JBig\<close> and \<open>JUndefined\<close>. \<open>serialize\<close> follows
  \<^verbatim>\<open>JSON.stringify(data, replacer)\<close>: the replacer sees every property first, a property
  whose value is undefined is left out, an undefined array element becomes null, and a
  big integer the replacer left in place is a \<^verbatim>\<open>TypeError\<close> (\<open>None\<close>). \<open>internalize\<close>
  follows \<^verbatim>\<open>JSON.parse(text, reviver)\<close>: children first, then the reviver on the
  property itself; \<open>None\<close> is an exception thrown by the reviver, which
  \<^verbatim>\<open>loadVaultData\<close> catches and turns into \<^verbatim>\<open>null\<close>.

  \<open>StringToBigInt\<close> covers the decimal literals \<^verbatim>\<open>BigInt(string)\<close> accepts (optional
  sign, the empty string as zero); the hexadecimal, octal and binary forms and surrounding
  white space never come out of \<^verbatim>\<open>value.toString()\<close> and are not modelled. \<open>BigInt\<close> of
  an array or object is not modelled either.
\<close>

datatype jsval =
    JUndefined
  | JNull
  | JBool bool
  | JNum rat
  | JStr string
  | JBig int
  | JArr "jsval list"
  | JObj "(string \<times> jsval) list"

datatype jskey = Prop string | Idx nat

definition digit_char :: "nat \<Rightarrow> char" where
  "digit_char d = char_of (48 + d)"

fun digits_of :: "nat \<Rightarrow> string" where
  "digits_of n = (if n < 10 then [digit_char n] else digits_of (n div 10) @ [digit_char (n mod 10)])"

declare digits_of.simps [simp del]

definition bigint_toString :: "int \<Rightarrow> string" where
  "bigint_toString n = (if n < 0 then CHR ''-'' # digits_of (nat (- n)) else digits_of (nat n))"

definition digit_val :: "char \<Rightarrow> nat option" where
  "digit_val c = (let k = (of_char c :: nat) in if 48 \<le> k \<and> k \<le> 57 then Some (k - 48) else None)"

fun parse_digits :: "nat \<Rightarrow> string \<Rightarrow> nat option" where
  "parse_digits acc [] = Some acc"
| "parse_digits acc (c # cs) =
     (case digit_val c of None \<Rightarrow> None | Some d \<Rightarrow> parse_digits (10 * acc + d) cs)"

definition StringToBigInt :: "string \<Rightarrow> int option" where
  "StringToBigInt s =
     (case s of
        [] \<Rightarrow> Some 0
      | c # cs \<Rightarrow>
          if c = CHR ''-'' \<and> cs \<noteq> [] then map_option (\<lambda>n. - int n) (parse_digits 0 cs)
          else if c = CHR ''+'' \<and> cs \<noteq> [] then map_option int (parse_digits 0 cs)
          else map_option int (parse_digits 0 s))"

fun BigInt :: "jsval \<Rightarrow> int option" where
  "BigInt (JBig n) = Some n"
| "BigInt (JStr s) = StringToBigInt s"
| "BigInt (JNum r) = (if of_int \<lfloor>r\<rfloor> = r then Some \<lfloor>r\<rfloor> else None)"
| "BigInt (JBool b) = Some (if b then 1 else 0)"
| "BigInt _ = None"

definition replacer :: "jskey \<Rightarrow> jsval \<Rightarrow> jsval" where
  "replacer key value = (case value of JBig n \<Rightarrow> JStr (bigint_toString n) | _ \<Rightarrow> value)"

definition reviver :: "jskey \<Rightarrow> jsval \<Rightarrow> jsval option" where
  "reviver key value =
     (if key = Prop ''allocation'' \<or> key = Prop ''totalValue'' \<or>
         key = Prop ''gasUsed'' \<or> key = Prop ''maxAmount''
      then map_option JBig (BigInt value)
      else Some value)"

function serialize :: "jskey \<Rightarrow> jsval \<Rightarrow> jsval option"
  and serialize_elems :: "nat \<Rightarrow> jsval list \<Rightarrow> jsval list option"
  and serialize_props :: "(string \<times> jsval) list \<Rightarrow> (string \<times> jsval) list option"
where
  "serialize key v =
     (case replacer key v of
        JBig n \<Rightarrow> None
      | JArr xs \<Rightarrow> map_option JArr (serialize_elems 0 xs)
      | JObj ps \<Rightarrow> map_option JObj (serialize_props ps)
      | w \<Rightarrow> Some w)"
| "serialize_elems i [] = Some []"
| "serialize_elems i (x # xs) =
     (case serialize (Idx i) x of
        None \<Rightarrow> None
      | Some y \<Rightarrow>
          (case serialize_elems (Suc i) xs of
             None \<Rightarrow> None
           | Some ys \<Rightarrow> Some ((if y = JUndefined then JNull else y) # ys)))"
| "serialize_props [] = Some []"
| "serialize_props (p # ps) =
     (case serialize (Prop (fst p)) (snd p) of
        None \<Rightarrow> None
      | Some y \<Rightarrow>
          (case serialize_props ps of
             None \<Rightarrow> None
           | Some qs \<Rightarrow> Some (if y = JUndefined then qs else (fst p, y) # qs)))"
  by pat_completeness auto
termination
  apply (relation "measure (\<lambda>x. case x of
            Inl (k, v) \<Rightarrow> 2 * size v + 1
          | Inr (Inl (i, xs)) \<Rightarrow> 2 * size_list size xs + 2
          | Inr (Inr ps) \<Rightarrow> 2 * size_list (size_prod (\<lambda>x. 0) size) ps + 2)")
  apply (auto simp: replacer_def split: jsval.splits)
  done

fun internalize :: "jskey \<Rightarrow> jsval \<Rightarrow> jsval option"
  and internalize_elems :: "nat \<Rightarrow> jsval list \<Rightarrow> jsval list option"
  and internalize_props :: "(string \<times> jsval) list \<Rightarrow> (string \<times> jsval) list option"
where
  "internalize key (JArr xs) =
     (case internalize_elems 0 xs of None \<Rightarrow> None | Some ys \<Rightarrow> reviver key (JArr ys))"
| "internalize key (JObj ps) =
     (case internalize_props ps of None \<Rightarrow> None | Some qs \<Rightarrow> reviver key (JObj qs))"
| "internalize key v = reviver key v"
| "internalize_elems i [] = Some []"
| "internalize_elems i (x # xs) =
     (case internalize (Idx i) x of
        None \<Rightarrow> None
      | Some y \<Rightarrow>
          (case internalize_elems (Suc i) xs of
             None \<Rightarrow> None
           | Some ys \<Rightarrow> Some (y # ys)))"
| "internalize_props [] = Some []"
| "internalize_props (p # ps) =
     (case internalize (Prop (fst p)) (snd p) of
        None \<Rightarrow> None
      | Some y \<Rightarrow>
          (case internalize_props ps of
             None \<Rightarrow> None
           | Some qs \<Rightarrow> Some (if y = JUndefined then qs else (fst p, y) # qs)))"

subsection \<open>The vault record\<close>

text \<open>
  The records follow \<^verbatim>\<open>vault/types/index.ts\<close>. Where two interfaces share a field name
  the later record carries a prefix (\<open>sd_delegation\<close>, \<open>sd_createdAt\<close>). The \<open>_toJS\<close>
  functions give the object a record is in memory (an optional field that is not set is
  an absent property); the \<open>_ofJS\<close> functions read a parsed document through property
  lookup, as the cast \<^verbatim>\<open>parsed as VaultStorage\<close> lets the engine do. A document that is
  not of the shape of a vault record has no typed reading (\<open>None\<close>).
\<close>

datatype PeriodUnit = MINUTES | HOURS | DAYS | WEEKS | MONTHS

datatype Delegation = Delegation string

record VaultConfig =
  vaultAddress :: string
  ownerAddress :: string
  checkInPeriod :: int
  checkInPeriodUnit :: PeriodUnit
  lastCheckIn :: int
  nextDeadline :: int
  totalValue :: int
  tokens :: "string list"
  createdAt :: int

record Beneficiary =
  address :: string
  name :: string
  allocation :: int
  percentage :: rat
  tokenAddress :: string
  delegation :: "Delegation option"
  delegationHash :: "string option"
  hasClaimed :: bool
  claimTxHash :: "string option"
  claimTimestamp :: "int option"

record StoredDelegation =
  beneficiaryAddress :: string
  sd_delegation :: Delegation
  signature :: string
  hash :: string
  sd_createdAt :: int
  deadline :: int
  isDisabled :: bool

record CheckInRecord =
  timestamp :: int
  txHash :: string
  newDeadline :: int
  disabledDelegationCount :: int
  createdDelegationCount :: int
  gasUsed :: int

record VaultStorage =
  config :: VaultConfig
  beneficiaries :: "Beneficiary list"
  delegations :: "StoredDelegation list"
  checkIns :: "CheckInRecord list"
  lastUpdated :: int

definition JInt :: "int \<Rightarrow> jsval" where
  "JInt n = JNum (of_int n)"

definition optProp :: "string \<Rightarrow> ('a \<Rightarrow> jsval) \<Rightarrow> 'a option \<Rightarrow> (string \<times> jsval) list" where
  "optProp k f x = (case x of None \<Rightarrow> [] | Some y \<Rightarrow> [(k, f y)])"

fun PeriodUnit_toJS :: "PeriodUnit \<Rightarrow> jsval" where
  "PeriodUnit_toJS MINUTES = JStr ''minutes''"
| "PeriodUnit_toJS HOURS = JStr ''hours''"
| "PeriodUnit_toJS DAYS = JStr ''days''"
| "PeriodUnit_toJS WEEKS = JStr ''weeks''"
| "PeriodUnit_toJS MONTHS = JStr ''months''"

fun Delegation_toJS :: "Delegation \<Rightarrow> jsval" where
  "Delegation_toJS (Delegation h) = JStr h"

definition VaultConfig_toJS :: "VaultConfig \<Rightarrow> jsval" where
  "VaultConfig_toJS c = JObj
     [(''vaultAddress'', JStr (vaultAddress c)),
      (''ownerAddress'', JStr (ownerAddress c)),
      (''checkInPeriod'', JInt (checkInPeriod c)),
      (''checkInPeriodUnit'', PeriodUnit_toJS (checkInPeriodUnit c)),
      (''lastCheckIn'', JInt (lastCheckIn c)),
      (''nextDeadline'', JInt (nextDeadline c)),
      (''totalValue'', JBig (totalValue c)),
      (''tokens'', JArr (map JStr (tokens c))),
      (''createdAt'', JInt (createdAt c))]"

definition Beneficiary_toJS :: "Beneficiary \<Rightarrow> jsval" where
  "Beneficiary_toJS b = JObj
     ([(''address'', JStr (address b)),
       (''name'', JStr (name b)),
       (''allocation'', JBig (allocation b)),
       (''percentage'', JNum (percentage b)),
       (''tokenAddress'', JStr (tokenAddress b))]
      @ optProp ''delegation'' Delegation_toJS (delegation b)
      @ optProp ''delegationHash'' JStr (delegationHash b)
      @ [(''hasClaimed'', JBool (hasClaimed b))]
      @ optProp ''claimTxHash'' JStr (claimTxHash b)
      @ optProp ''claimTimestamp'' JInt (claimTimestamp b))"

definition StoredDelegation_toJS :: "StoredDelegation \<Rightarrow> jsval" where
  "StoredDelegation_toJS d = JObj
     [(''beneficiaryAddress'', JStr (beneficiaryAddress d)),
      (''delegation'', Delegation_toJS (sd_delegation d)),
      (''signature'', JStr (signature d)),
      (''hash'', JStr (hash d)),
      (''createdAt'', JInt (sd_createdAt d)),
      (''deadline'', JInt (deadline d)),
      (''isDisabled'', JBool (isDisabled d))]"

definition CheckInRecord_toJS :: "CheckInRecord \<Rightarrow> jsval" where
  "CheckInRecord_toJS r = JObj
     [(''timestamp'', JInt (timestamp r)),
      (''txHash'', JStr (txHash r)),
      (''newDeadline'', JInt (newDeadline r)),
      (''disabledDelegationCount'', JInt (disabledDelegationCount r)),
      (''createdDelegationCount'', JInt (createdDelegationCount r)),
      (''gasUsed'', JBig (gasUsed r))]"

definition VaultStorage_toJS :: "VaultStorage \<Rightarrow> jsval" where
  "VaultStorage_toJS s = JObj
     [(''config'', VaultConfig_toJS (config s)),
      (''beneficiaries'', JArr (map Beneficiary_toJS (beneficiaries s))),
      (''delegations'', JArr (map StoredDelegation_toJS (delegations s))),
      (''checkIns'', JArr (map CheckInRecord_toJS (checkIns s))),
      (''lastUpdated'', JInt (lastUpdated s))]"

fun getProp :: "jsval \<Rightarrow> string \<Rightarrow> jsval" where
  "getProp (JObj ps) k = (case map_of ps k of None \<Rightarrow> JUndefined | Some v \<Rightarrow> v)"
| "getProp _ k = JUndefined"

fun asString :: "jsval \<Rightarrow> string option" where
  "asString (JStr s) = Some s"
| "asString _ = None"

fun asNumber :: "jsval \<Rightarrow> rat option" where
  "asNumber (JNum r) = Some r"
| "asNumber _ = None"

fun asInt :: "jsval \<Rightarrow> int option" where
  "asInt (JNum r) = (if of_int \<lfloor>r\<rfloor> = r then Some \<lfloor>r\<rfloor> else None)"
| "asInt _ = None"

fun asBigInt :: "jsval \<Rightarrow> int option" where
  "asBigInt (JBig n) = Some n"
| "asBigInt _ = None"

fun asBool :: "jsval \<Rightarrow> bool option" where
  "asBool (JBool b) = Some b"
| "asBool _ = None"

fun asOptional :: "(jsval \<Rightarrow> 'a option) \<Rightarrow> jsval \<Rightarrow> 'a option option" where
  "asOptional f JUndefined = Some None"
| "asOptional f v = map_option Some (f v)"

fun asArray :: "(jsval \<Rightarrow> 'a option) \<Rightarrow> jsval \<Rightarrow> 'a list option" where
  "asArray f (JArr xs) = those (map f xs)"
| "asArray f _ = None"

definition PeriodUnit_ofJS :: "jsval \<Rightarrow> PeriodUnit option" where
  "PeriodUnit_ofJS v =
     (if v = JStr ''minutes'' then Some MINUTES
      else if v = JStr ''hours'' then Some HOURS
      else if v = JStr ''days'' then Some DAYS
      else if v = JStr ''weeks'' then Some WEEKS
      else if v = JStr ''months'' then Some MONTHS
      else None)"

definition Delegation_ofJS :: "jsval \<Rightarrow> Delegation option" where
  "Delegation_ofJS v = map_option Delegation (asString v)"

definition VaultConfig_ofJS :: "jsval \<Rightarrow> VaultConfig option" where
  "VaultConfig_ofJS v = do {
     a \<leftarrow> asString (getProp v ''vaultAddress'');
     b \<leftarrow> asString (getProp v ''ownerAddress'');
     c \<leftarrow> asInt (getProp v ''checkInPeriod'');
     d \<leftarrow> PeriodUnit_ofJS (getProp v ''checkInPeriodUnit'');
     e \<leftarrow> asInt (getProp v ''lastCheckIn'');
     f \<leftarrow> asInt (getProp v ''nextDeadline'');
     g \<leftarrow> asBigInt (getProp v ''totalValue'');
     h \<leftarrow> asArray asString (getProp v ''tokens'');
     i \<leftarrow> asInt (getProp v ''createdAt'');
     Some \<lparr>vaultAddress = a, ownerAddress = b, checkInPeriod = c, checkInPeriodUnit = d,
            lastCheckIn = e, nextDeadline = f, totalValue = g, tokens = h, createdAt = i\<rparr>
   }"

definition Beneficiary_ofJS :: "jsval \<Rightarrow> Beneficiary option" where
  "Beneficiary_ofJS v = do {
     a \<leftarrow> asString (getProp v ''address'');
     b \<leftarrow> asString (getProp v ''name'');
     c \<leftarrow> asBigInt (getProp v ''allocation'');
     d \<leftarrow> asNumber (getProp v ''percentage'');
     e \<leftarrow> asString (getProp v ''tokenAddress'');
     f \<leftarrow> asOptional Delegation_ofJS (getProp v ''delegation'');
     g \<leftarrow> asOptional asString (getProp v ''delegationHash'');
     h \<leftarrow> asBool (getProp v ''hasClaimed'');
     i \<leftarrow> asOptional asString (getProp v ''claimTxHash'');
     j \<leftarrow> asOptional asInt (getProp v ''claimTimestamp'');
     Some \<lparr>address = a, name = b, allocation = c, percentage = d, tokenAddress = e,
            delegation = f, delegationHash = g, hasClaimed = h, claimTxHash = i,
            claimTimestamp = j\<rparr>
   }"

definition StoredDelegation_ofJS :: "jsval \<Rightarrow> StoredDelegation option" where
  "StoredDelegation_ofJS v = do {
     a \<leftarrow> asString (getProp v ''beneficiaryAddress'');
     b \<leftarrow> Delegation_ofJS (getProp v ''delegation'');
     c \<leftarrow> asString (getProp v ''signature'');
     d \<leftarrow> asString (getProp v ''hash'');
     e \<leftarrow> asInt (getProp v ''createdAt'');
     f \<leftarrow> asInt (getProp v ''deadline'');
     g \<leftarrow> asBool (getProp v ''isDisabled'');
     Some \<lparr>beneficiaryAddress = a, sd_delegation = b, signature = c, hash = d,
            sd_createdAt = e, deadline = f, isDisabled = g\<rparr>
   }"

definition CheckInRecord_ofJS :: "jsval \<Rightarrow> CheckInRecord option" where
  "CheckInRecord_ofJS v = do {
     a \<leftarrow> asInt (getProp v ''timestamp'');
     b \<leftarrow> asString (getProp v ''txHash'');
     c \<leftarrow> asInt (getProp v ''newDeadline'');
     d \<leftarrow> asInt (getProp v ''disabledDelegationCount'');
     e \<leftarrow> asInt (getProp v ''createdDelegationCount'');
     f \<leftarrow> asBigInt (getProp v ''gasUsed'');
     Some \<lparr>timestamp = a, txHash = b, newDeadline = c, disabledDelegationCount = d,
            createdDelegationCount = e, gasUsed = f\<rparr>
   }"

definition VaultStorage_ofJS :: "jsval \<Rightarrow> VaultStorage option" where
  "VaultStorage_ofJS v = do {
     a \<leftarrow> VaultConfig_ofJS (getProp v ''config'');
     b \<leftarrow> asArray Beneficiary_ofJS (getProp v ''beneficiaries'');
     c \<leftarrow> asArray StoredDelegation_ofJS (getProp v ''delegations'');
     d \<leftarrow> asArray CheckInRecord_ofJS (getProp v ''checkIns'');
     e \<leftarrow> asInt (getProp v ''lastUpdated'');
     Some \<lparr>config = a, beneficiaries = b, delegations = c, checkIns = d, lastUpdated = e\<rparr>
   }"

text \<open>
  \<^verbatim>\<open>String.prototype.toLowerCase\<close> on code units below 256: the letters A to Z, and the
  Latin-1 capitals (192 to 222 except the multiplication sign 215), move up by 32.
\<close>

definition toLowerChar :: "char \<Rightarrow> char" where
  "toLowerChar c =
     (let k = (of_char c :: nat)
      in if (65 \<le> k \<and> k \<le> 90) \<or> (192 \<le> k \<and> k \<le> 222 \<and> k \<noteq> 215)
         then char_of (k + 32) else c)"

definition toLowerCase :: "string \<Rightarrow> string" where
  "toLowerCase s = map toLowerChar s"

subsection \<open>The store\<close>

text \<open>
  \<open>saveVaultData\<close> serialises the record with the replacer and writes the document
  under the lower-cased address; \<open>loadVaultData\<close> reads the document, parses it with the
  reviver and returns the record, or nothing when there is no document or the reviver
  throws. All errors of the engine are \<^verbatim>\<open>new Error(message)\<close> in the source; the
  constructors of \<open>vault_error\<close> and \<open>validation_failure\<close> stand for the messages.
\<close>

type_synonym Store = "string \<rightharpoonup> jsval"

datatype validation_failure =
    InvalidAddress string
  | NameEmpty
  | NameTooLong
  | DuplicateAddress string
  | NoBeneficiaries
  | TooManyBeneficiaries
  | AllocationExceedsBalance int int
  | NonPositiveAllocation string
  | ZeroAllocation string
  | PeriodTooShort
  | PeriodTooLong
  | BalanceTooLow

datatype vault_error =
    VaultNotFound
  | ValidationError "validation_failure option"
  | SigningError
  | NoActiveDelegations
  | BeneficiaryNotFound
  | DelegationNotFound
  | DelegationDisabled
  | TooEarly int
  | AlreadyClaimed
  | TransactionError
  | TypeError
  | RangeError
  | SaveError
  | ConstructionError
  | InvalidPrivateKey

definition saveVaultData :: "Store \<Rightarrow> string \<Rightarrow> VaultStorage \<Rightarrow> vault_error + Store" where
  "saveVaultData st vaultAddr data =
     (case serialize (Prop []) (VaultStorage_toJS data) of
        None \<Rightarrow> Inl SaveError
      | Some doc \<Rightarrow>
          if doc = JUndefined then Inl SaveError
          else Inr (st(toLowerCase vaultAddr \<mapsto> doc)))"

definition loadVaultData :: "Store \<Rightarrow> string \<Rightarrow> VaultStorage option" where
  "loadVaultData st vaultAddr =
     (case st (toLowerCase vaultAddr) of
        None \<Rightarrow> None
      | Some doc \<Rightarrow>
          (case internalize (Prop []) doc of
             None \<Rightarrow> None
           | Some v \<Rightarrow> VaultStorage_ofJS v))"

subsection \<open>Time helpers\<close>

text \<open>
  From \<^verbatim>\<open>vault/utils/time-helpers.ts\<close>; the first argument is the reading of
  \<^verbatim>\<open>Math.floor(Date.now() / 1000)\<close> the function makes. The source computes in
  IEEE doubles; on integers the sums and products below agree with it as long as every
  value stays a safe integer (magnitude at most \<open>2^53 - 1\<close>), and round beyond.
\<close>

record TimeCalculation =
  secondsRemaining :: int
  isPast :: bool
  tc_deadline :: int

definition calculateTimeRemaining :: "int \<Rightarrow> int \<Rightarrow> TimeCalculation" where
  "calculateTimeRemaining now deadlineTimestamp =
     (let remaining = deadlineTimestamp - now;
          past = (remaining \<le> 0)
      in \<lparr>secondsRemaining = max 0 remaining, isPast = past, tc_deadline = deadlineTimestamp\<rparr>)"

definition getDeadlineFromPeriod :: "int \<Rightarrow> int \<Rightarrow> PeriodUnit \<Rightarrow> int" where
  "getDeadlineFromPeriod now period unit =
     (let seconds =
        (case unit of
           MINUTES \<Rightarrow> period * 60
         | HOURS \<Rightarrow> period * 60 * 60
         | DAYS \<Rightarrow> period * 24 * 60 * 60
         | WEEKS \<Rightarrow> period * 7 * 24 * 60 * 60
         | MONTHS \<Rightarrow> period * 30 * 24 * 60 * 60)
      in now + seconds)"

definition isDeadlinePassed :: "int \<Rightarrow> int \<Rightarrow> bool" where
  "isDeadlinePassed now dl = (now \<ge> dl)"

subsection \<open>Validation\<close>

text \<open>
  The validators of \<^verbatim>\<open>vault/utils/validation.ts\<close>. \<^verbatim>\<open>isAddress\<close> comes from the
  \<^verbatim>\<open>viem\<close> library and is an argument. \<open>trim\<close> strips the white space a code unit
  below 256 can be.
\<close>

datatype warning =
    ManyBeneficiaries
  | Unallocated int
  | ShortPeriod
  | LongPeriod

record ValidationResult =
  isValid :: bool
  error :: "validation_failure option"
  warnings :: "warning list option"

definition valid :: ValidationResult where
  "valid = \<lparr>isValid = True, error = None, warnings = None\<rparr>"

definition invalid :: "validation_failure \<Rightarrow> ValidationResult" where
  "invalid f = \<lparr>isValid = False, error = Some f, warnings = None\<rparr>"

definition validateAddress :: "(string \<Rightarrow> bool) \<Rightarrow> string \<Rightarrow> ValidationResult" where
  "validateAddress isAddr a = (if \<not> isAddr a then invalid (InvalidAddress a) else valid)"

definition validateBeneficiaryAllocations :: "Beneficiary list \<Rightarrow> int \<Rightarrow> ValidationResult" where
  "validateBeneficiaryAllocations bs vaultBalance =
     (if length bs = 0 then invalid NoBeneficiaries
      else if length bs > 10 then
        \<lparr>isValid = False, error = Some TooManyBeneficiaries, warnings = Some [ManyBeneficiaries]\<rparr>
      else
        let totalAllocation = foldl (\<lambda>sum b. sum + allocation b) 0 bs in
        if totalAllocation > vaultBalance
        then invalid (AllocationExceedsBalance totalAllocation vaultBalance)
        else
          (case find (\<lambda>b. allocation b \<le> 0) bs of
             Some b \<Rightarrow> invalid (NonPositiveAllocation (name b))
           | None \<Rightarrow>
               let ws = (if totalAllocation < vaultBalance
                         then [Unallocated (vaultBalance - totalAllocation)] else [])
               in \<lparr>isValid = True, error = None,
                   warnings = (if length ws > 0 then Some ws else None)\<rparr>))"

definition validateCheckInPeriod :: "int \<Rightarrow> PeriodUnit \<Rightarrow> ValidationResult" where
  "validateCheckInPeriod period unit =
     (let totalMinutes =
        (case unit of
           MINUTES \<Rightarrow> period
         | HOURS \<Rightarrow> period * 60
         | DAYS \<Rightarrow> period * 24 * 60
         | WEEKS \<Rightarrow> period * 7 * 24 * 60
         | MONTHS \<Rightarrow> period * 30 * 24 * 60)
      in if totalMinutes < 5 then invalid PeriodTooShort
         else if totalMinutes > 365 * 24 * 60 then invalid PeriodTooLong
         else
           let ws = (if totalMinutes < 60 then [ShortPeriod] else [])
                    @ (if totalMinutes > 180 * 24 * 60 then [LongPeriod] else [])
           in \<lparr>isValid = True, error = None,
               warnings = (if length ws > 0 then Some ws else None)\<rparr>)"

definition MIN_BALANCE :: int where
  "MIN_BALANCE = 1000000000000000"

definition validateVaultBalance :: "int \<Rightarrow> ValidationResult" where
  "validateVaultBalance balance = (if balance < MIN_BALANCE then invalid BalanceTooLow else valid)"

definition isWhiteSpace :: "char \<Rightarrow> bool" where
  "isWhiteSpace c = ((of_char c :: nat) \<in> {9, 10, 11, 12, 13, 32, 160})"

definition trim :: "string \<Rightarrow> string" where
  "trim s = rev (dropWhile isWhiteSpace (rev (dropWhile isWhiteSpace s)))"

definition validateBeneficiaryName :: "string \<Rightarrow> ValidationResult" where
  "validateBeneficiaryName nm =
     (if nm = [] \<or> length (trim nm) = 0 then invalid NameEmpty
      else if length nm > 50 then invalid NameTooLong
      else valid)"

fun noDuplicatesLoop :: "string list \<Rightarrow> string list \<Rightarrow> ValidationResult" where
  "noDuplicatesLoop seen [] = valid"
| "noDuplicatesLoop seen (a # as) =
     (let normalized = toLowerCase a
      in if normalized \<in> set seen then invalid (DuplicateAddress a)
         else noDuplicatesLoop (normalized # seen) as)"

definition validateNoDuplicates :: "string list \<Rightarrow> ValidationResult" where
  "validateNoDuplicates addresses = noDuplicatesLoop [] addresses"

definition orEmpty :: "'a list option \<Rightarrow> 'a list" where
  "orEmpty x = (case x of None \<Rightarrow> [] | Some ws \<Rightarrow> ws)"

definition validateVaultSetup ::
  "(string \<Rightarrow> bool) \<Rightarrow> string \<Rightarrow> Beneficiary list \<Rightarrow> int \<Rightarrow> int \<Rightarrow> PeriodUnit \<Rightarrow> ValidationResult"
where
  "validateVaultSetup isAddr owner bs vaultBalance period unit =
     (let ownerValidation = validateAddress isAddr owner in
      if \<not> isValid ownerValidation then ownerValidation else
      let periodValidation = validateCheckInPeriod period unit in
      if \<not> isValid periodValidation then periodValidation else
      let balanceValidation = validateVaultBalance vaultBalance in
      if \<not> isValid balanceValidation then balanceValidation else
      let beneficiaryValidation = validateBeneficiaryAllocations bs vaultBalance in
      if \<not> isValid beneficiaryValidation then beneficiaryValidation else
      let duplicateValidation = validateNoDuplicates (map address bs) in
      if \<not> isValid duplicateValidation then duplicateValidation else
      let ws = orEmpty (warnings periodValidation) @ orEmpty (warnings beneficiaryValidation)
      in \<lparr>isValid = True, error = None, warnings = (if length ws > 0 then Some ws else None)\<rparr>)"

subsection \<open>The delegation framework and the chain, as seen from the engine\<close>

text \<open>
  \<open>DelegationRequest\<close> is what \<open>setupBeneficiaries\<close> hands to the framework: delegator,
  delegate, scope and the three caveats. The caveat for a token transfer is handed over
  as the source writes it, with the maximum amount and no token address.
  \<open>buildCaveats\<close> (the caveat builder) and \<open>createDelegation\<close> give \<open>None\<close> when the
  framework throws, \<open>privateKeyToAccount\<close> when the key is rejected.
  \<open>DisableOutcome\<close> tells how far one disable went:
  the transaction was not sent, it was sent and its receipt never came, or it was
  confirmed. \<open>keccak256\<close> stands for
  \<^verbatim>\<open>keccak256(toHex(JSON.stringify(delegation)))\<close>, \<open>delegationFrom\<close> for the address
  \<^verbatim>\<open>params.signedDelegation.delegation.from\<close> evaluates to (\<open>None\<close> when that
  property access throws), \<open>sendClaim\<close> for sending the redemption and waiting for its
  receipt (transaction hash and gas used).
\<close>

datatype Scope =
    NativeTokenTransferAmount int
  | Erc20TransferAmount string int

datatype Caveat =
    TimestampCaveat int int
  | LimitedCallsCaveat int
  | NativeTokenTransferAmountCaveat int
  | Erc20TransferAmountCaveat int

record DelegationRequest =
  dr_from :: string
  dr_to :: string
  dr_scope :: Scope
  dr_caveats :: "Caveat list"

datatype DisableOutcome =
    DisableThrows
  | ReceiptThrows string
  | DisableConfirmed string

datatype CallData = EmptyCallData | Erc20Transfer string int

record ClaimTransaction =
  ct_manager :: string
  ct_delegation :: Delegation
  ct_signature :: string
  ct_target :: string
  ct_value :: int
  ct_callData :: CallData

record Externals =
  isAddress :: "string \<Rightarrow> bool"
  getBalance :: "string \<Rightarrow> int"
  privateKeyToAccount :: "string \<Rightarrow> string option"
  buildCaveats :: "Caveat list \<Rightarrow> Caveat list option"
  createDelegation :: "DelegationRequest \<Rightarrow> Delegation option"
  signDelegation :: "Delegation \<Rightarrow> string option"
  keccak256 :: "Delegation \<Rightarrow> string"
  disableDelegation :: "Delegation \<Rightarrow> string \<Rightarrow> DisableOutcome"
  getTransactionReceipt :: "string \<Rightarrow> int option"
  delegationFrom :: "Delegation \<Rightarrow> string option"
  sendClaim :: "ClaimTransaction \<Rightarrow> (string \<times> int) option"

subsection \<open>Queries on the store\<close>

definition getBeneficiaryDelegation :: "Store \<Rightarrow> string \<Rightarrow> string \<Rightarrow> StoredDelegation option" where
  "getBeneficiaryDelegation st vaultAddr beneficiaryAddr =
     (case loadVaultData st vaultAddr of
        None \<Rightarrow> None
      | Some vaultData \<Rightarrow>
          find (\<lambda>d. toLowerCase (beneficiaryAddress d) = toLowerCase beneficiaryAddr)
               (delegations vaultData))"

fun setFirstDisabled :: "string \<Rightarrow> bool \<Rightarrow> StoredDelegation list \<Rightarrow> StoredDelegation list option" where
  "setFirstDisabled h v [] = None"
| "setFirstDisabled h v (d # ds) =
     (if toLowerCase (hash d) = toLowerCase h then Some (d\<lparr>isDisabled := v\<rparr> # ds)
      else map_option ((#) d) (setFirstDisabled h v ds))"

definition updateDelegationStatus ::
  "Store \<Rightarrow> int \<Rightarrow> string \<Rightarrow> string \<Rightarrow> bool \<Rightarrow> (vault_error + bool) \<times> Store"
where
  "updateDelegationStatus st now vaultAddr delegationHash' v =
     (case loadVaultData st vaultAddr of
        None \<Rightarrow> (Inr False, st)
      | Some vaultData \<Rightarrow>
          (case setFirstDisabled delegationHash' v (delegations vaultData) of
             None \<Rightarrow> (Inr False, st)
           | Some ds \<Rightarrow>
               (case saveVaultData st vaultAddr (vaultData\<lparr>delegations := ds, lastUpdated := now\<rparr>) of
                  Inl e \<Rightarrow> (Inl e, st)
                | Inr st' \<Rightarrow> (Inr True, st'))))"

definition getActiveDelegations :: "Store \<Rightarrow> string \<Rightarrow> StoredDelegation list" where
  "getActiveDelegations st vaultAddr =
     (case loadVaultData st vaultAddr of
        None \<Rightarrow> []
      | Some vaultData \<Rightarrow> filter (\<lambda>d. \<not> isDisabled d) (delegations vaultData))"

subsection \<open>setupBeneficiaries\<close>

text \<open>
  \<^verbatim>\<open>vault/core/setup-beneficiaries.ts\<close>. \<open>validateEach\<close> is the first loop, \<open>createOne\<close>
  the body of the second and \<open>createAll\<close> that loop; the store is written once, at the
  end, and only if the vault is found in it. The clock is read once for each
  beneficiary (\<open>tCreated clk i\<close> for the beneficiary at index \<open>i\<close>) and once more for
  \<^verbatim>\<open>lastUpdated\<close> (\<open>tWritten clk\<close>). \<open>bigint_div\<close> is the truncating division
  of \<^verbatim>\<open>bigint\<close>, which throws a \<^verbatim>\<open>RangeError\<close> on a zero divisor.
\<close>

record SetupClock =
  tCreated :: "nat \<Rightarrow> int"
  tWritten :: int

record BeneficiaryInput =
  in_address :: string
  in_name :: string
  in_allocation :: int
  in_tokenAddress :: "string option"

definition ZERO_ADDRESS :: string where
  "ZERO_ADDRESS = ''0x0000000000000000000000000000000000000000''"

definition bigint_div :: "int \<Rightarrow> int \<Rightarrow> int" where
  "bigint_div a b = sgn a * sgn b * (\<bar>a\<bar> div \<bar>b\<bar>)"

fun validateEach :: "(string \<Rightarrow> bool) \<Rightarrow> BeneficiaryInput list \<Rightarrow> vault_error option" where
  "validateEach isAddr [] = None"
| "validateEach isAddr (b # bs) =
     (let addressValidation = validateAddress isAddr (in_address b) in
      if \<not> isValid addressValidation then Some (ValidationError (error addressValidation)) else
      let nameValidation = validateBeneficiaryName (in_name b) in
      if \<not> isValid nameValidation then Some (ValidationError (error nameValidation)) else
      if in_allocation b \<le> 0 then Some (ValidationError (Some (ZeroAllocation (in_name b))))
      else validateEach isAddr bs)"

definition createOne ::
  "Externals \<Rightarrow> SetupClock \<Rightarrow> nat \<Rightarrow> string \<Rightarrow> int \<Rightarrow> int \<Rightarrow> BeneficiaryInput
     \<Rightarrow> vault_error + (Beneficiary \<times> StoredDelegation)"
where
  "createOne ext clk i vaultAddr dl vaultBalance b =
     (let tokenAddr = (case in_tokenAddress b of
                         None \<Rightarrow> ZERO_ADDRESS
                       | Some t \<Rightarrow> if t = [] then ZERO_ADDRESS else t);
          isNativeToken = (tokenAddr = ZERO_ADDRESS)
      in case buildCaveats ext
                [TimestampCaveat dl 253402300799,
                 LimitedCallsCaveat 1,
                 (if isNativeToken then NativeTokenTransferAmountCaveat (in_allocation b)
                  else Erc20TransferAmountCaveat (in_allocation b))] of
           None \<Rightarrow> Inl ConstructionError
         | Some caveats \<Rightarrow>
      (case createDelegation ext
                 \<lparr>dr_from = vaultAddr, dr_to = in_address b,
                  dr_scope = (if isNativeToken then NativeTokenTransferAmount (in_allocation b)
                              else Erc20TransferAmount tokenAddr (in_allocation b)),
                  dr_caveats = caveats\<rparr> of
           None \<Rightarrow> Inl ConstructionError
         | Some dg \<Rightarrow>
      (case signDelegation ext dg of
           None \<Rightarrow> Inl SigningError
         | Some sig \<Rightarrow>
             let dh = keccak256 ext dg in
             if vaultBalance = 0 then Inl RangeError else
             let pct = of_int (bigint_div (in_allocation b * 10000) vaultBalance) / 100
             in Inr (\<lparr>address = in_address b, name = in_name b, allocation = in_allocation b,
                       percentage = pct, tokenAddress = tokenAddr, delegation = Some dg,
                       delegationHash = Some dh, hasClaimed = False, claimTxHash = None,
                       claimTimestamp = None\<rparr>,
                     \<lparr>beneficiaryAddress = in_address b, sd_delegation = dg, signature = sig,
                       hash = dh, sd_createdAt = tCreated clk i, deadline = dl,
                       isDisabled = False\<rparr>))))"

fun createAll ::
  "Externals \<Rightarrow> SetupClock \<Rightarrow> nat \<Rightarrow> string \<Rightarrow> int \<Rightarrow> int \<Rightarrow> BeneficiaryInput list
     \<Rightarrow> vault_error + (Beneficiary \<times> StoredDelegation) list"
where
  "createAll ext clk i vaultAddr dl vaultBalance [] = Inr []"
| "createAll ext clk i vaultAddr dl vaultBalance (b # bs) =
     (case createOne ext clk i vaultAddr dl vaultBalance b of
        Inl e \<Rightarrow> Inl e
      | Inr p \<Rightarrow>
          (case createAll ext clk (Suc i) vaultAddr dl vaultBalance bs of
             Inl e \<Rightarrow> Inl e
           | Inr ps \<Rightarrow> Inr (p # ps)))"

definition setupBeneficiaries ::
  "Externals \<Rightarrow> SetupClock \<Rightarrow> Store \<Rightarrow> string \<Rightarrow> BeneficiaryInput list \<Rightarrow> int
     \<Rightarrow> (vault_error + Beneficiary list) \<times> Store"
where
  "setupBeneficiaries ext now st vaultAddr inputs dl =
     (let duplicateValidation = validateNoDuplicates (map in_address inputs) in
      if \<not> isValid duplicateValidation then (Inl (ValidationError (error duplicateValidation)), st)
      else
        case validateEach (isAddress ext) inputs of
          Some e \<Rightarrow> (Inl e, st)
        | None \<Rightarrow>
            let vaultBalance = getBalance ext vaultAddr;
                totalAllocation = foldl (\<lambda>sum b. sum + in_allocation b) 0 inputs
            in if totalAllocation > vaultBalance
               then (Inl (ValidationError
                            (Some (AllocationExceedsBalance totalAllocation vaultBalance))), st)
               else
                 case createAll ext now 0 vaultAddr dl vaultBalance inputs of
                   Inl e \<Rightarrow> (Inl e, st)
                 | Inr created \<Rightarrow>
                     (case loadVaultData st vaultAddr of
                        None \<Rightarrow> (Inr (map fst created), st)
                      | Some vaultData \<Rightarrow>
                          (case saveVaultData st vaultAddr
                                  (vaultData\<lparr>beneficiaries := map fst created,
                                             delegations := map snd created,
                                             lastUpdated := tWritten now\<rparr>) of
                             Inl e \<Rightarrow> (Inl e, st)
                           | Inr st' \<Rightarrow> (Inr (map fst created), st'))))"

subsection \<open>checkIn\<close>

text \<open>
  \<^verbatim>\<open>vault/core/check-in.ts\<close>. The wallet client is built from the owner key after the
  check for active delegations and before the loop, outside any \<^verbatim>\<open>try\<close>: a key that
  \<^verbatim>\<open>privateKeyToAccount\<close> rejects ends the call there. \<open>disableLoop\<close> is the loop over the active delegations
  with its \<^verbatim>\<open>try\<close>/\<^verbatim>\<open>catch\<close>; it carries the store, \<^verbatim>\<open>disabledCount\<close> and
  \<^verbatim>\<open>txHashes\<close>. In \<open>checkIn\<close>, \<open>vaultData\<close> is the object loaded at the start: the
  function updates its configuration and history and saves it at the end, after
  \<open>updateDelegationStatus\<close> and \<open>setupBeneficiaries\<close> have loaded and saved documents
  of their own.
\<close>

record CheckInClock =
  tDisable :: int
  tDeadline :: int
  tSetup :: SetupClock
  tRecord :: int
  tSaved :: int

fun disableLoop ::
  "Externals \<Rightarrow> int \<Rightarrow> string \<Rightarrow> StoredDelegation list \<Rightarrow> Store \<times> int \<times> string list
     \<Rightarrow> Store \<times> int \<times> string list"
where
  "disableLoop ext now vaultAddr [] acc = acc"
| "disableLoop ext now vaultAddr (d # ds) (st, disabledCount, txHashes) =
     (case disableDelegation ext (sd_delegation d) (signature d) of
        DisableThrows \<Rightarrow> disableLoop ext now vaultAddr ds (st, disabledCount, txHashes)
      | ReceiptThrows h \<Rightarrow> disableLoop ext now vaultAddr ds (st, disabledCount, txHashes @ [h])
      | DisableConfirmed h \<Rightarrow>
          (case updateDelegationStatus st now vaultAddr (hash d) True of
             (Inl e, st') \<Rightarrow> disableLoop ext now vaultAddr ds (st', disabledCount, txHashes @ [h])
           | (Inr found, st') \<Rightarrow>
               disableLoop ext now vaultAddr ds (st', disabledCount + 1, txHashes @ [h])))"

definition toInput :: "Beneficiary \<Rightarrow> BeneficiaryInput" where
  "toInput b = \<lparr>in_address = address b, in_name = name b, in_allocation = allocation b,
                in_tokenAddress = Some (tokenAddress b)\<rparr>"

definition totalGas :: "Externals \<Rightarrow> string list \<Rightarrow> int" where
  "totalGas ext txHashes =
     foldl (\<lambda>total h. case getTransactionReceipt ext h of None \<Rightarrow> total | Some g \<Rightarrow> total + g)
           0 txHashes"

definition checkIn ::
  "Externals \<Rightarrow> CheckInClock \<Rightarrow> Store \<Rightarrow> string \<Rightarrow> Beneficiary list \<Rightarrow> int option
     \<Rightarrow> string \<Rightarrow> (vault_error + CheckInRecord) \<times> Store"
where
  "checkIn ext clk st vaultAddr bens newCheckInPeriodDays ownerPrivateKey =
     (case loadVaultData st vaultAddr of
        None \<Rightarrow> (Inl VaultNotFound, st)
      | Some vaultData \<Rightarrow>
          let cfg = config vaultData;
              activeDelegations = getActiveDelegations st vaultAddr
          in if length activeDelegations = 0 then (Inl NoActiveDelegations, st)
             else
               case privateKeyToAccount ext ownerPrivateKey of
                 None \<Rightarrow> (Inl InvalidPrivateKey, st)
               | Some ownerAccount \<Rightarrow>
               case disableLoop ext (tDisable clk) vaultAddr activeDelegations (st, 0, []) of
                 (st1, disabledCount, txHashes) \<Rightarrow>
                   let newPeriod = (case newCheckInPeriodDays of
                                      None \<Rightarrow> checkInPeriod cfg
                                    | Some p \<Rightarrow> if p \<noteq> 0 then p else checkInPeriod cfg);
                       newDl = getDeadlineFromPeriod (tDeadline clk) newPeriod (checkInPeriodUnit cfg)
                   in case setupBeneficiaries ext (tSetup clk) st1 vaultAddr (map toInput bens) newDl of
                        (Inl e, st2) \<Rightarrow> (Inl e, st2)
                      | (Inr newBeneficiaries, st2) \<Rightarrow>
                          let checkInRecord =
                                \<lparr>timestamp = tRecord clk,
                                 txHash = (case txHashes of
                                             [] \<Rightarrow> ''0x0''
                                           | h # _ \<Rightarrow> if h = [] then ''0x0'' else h),
                                 newDeadline = newDl,
                                 disabledDelegationCount = disabledCount,
                                 createdDelegationCount = int (length newBeneficiaries),
                                 gasUsed = totalGas ext txHashes\<rparr>;
                              cfg' = cfg\<lparr>lastCheckIn := timestamp checkInRecord,
                                         nextDeadline := newDl,
                                         checkInPeriod :=
                                           (case newCheckInPeriodDays of
                                              None \<Rightarrow> checkInPeriod cfg
                                            | Some p \<Rightarrow> if p \<noteq> 0 then p else checkInPeriod cfg)\<rparr>;
                              vaultData' = vaultData\<lparr>config := cfg',
                                                      checkIns := checkIns vaultData @ [checkInRecord],
                                                      lastUpdated := tSaved clk\<rparr>
                          in case saveVaultData st2 vaultAddr vaultData' of
                               Inl e \<Rightarrow> (Inl e, st2)
                             | Inr st3 \<Rightarrow> (Inr checkInRecord, st3))"

definition simpleCheckIn ::
  "Externals \<Rightarrow> CheckInClock \<Rightarrow> Store \<Rightarrow> string \<Rightarrow> string \<Rightarrow> int option
     \<Rightarrow> (vault_error + CheckInRecord) \<times> Store"
where
  "simpleCheckIn ext clk st vaultAddr ownerPrivateKey newCheckInPeriodDays =
     (case loadVaultData st vaultAddr of
        None \<Rightarrow> (Inl VaultNotFound, st)
      | Some vaultData \<Rightarrow>
          checkIn ext clk st vaultAddr (beneficiaries vaultData) newCheckInPeriodDays
            ownerPrivateKey)"

subsection \<open>claim\<close>

text \<open>
  \<^verbatim>\<open>vault/core/claim.ts\<close>. The signed delegation \<^verbatim>\<open>{...delegation, signature}\<close> is
  the pair of the stored delegation and its signature.
\<close>

record ClaimClock =
  tPassed :: int
  tRemaining :: int
  tClaimed :: int
  tUpdated :: int

record ClaimResult =
  cr_txHash :: string
  cr_amount :: int
  cr_gasUsed :: int

fun findIndex :: "('a \<Rightarrow> bool) \<Rightarrow> 'a list \<Rightarrow> nat option" where
  "findIndex P [] = None"
| "findIndex P (x # xs) = (if P x then Some 0 else map_option Suc (findIndex P xs))"

definition claimInheritance ::
  "Externals \<Rightarrow> ClaimClock \<Rightarrow> Store \<Rightarrow> string \<Rightarrow> Delegation \<times> string \<Rightarrow> Beneficiary \<Rightarrow> string
     \<Rightarrow> (vault_error + ClaimResult) \<times> Store"
where
  "claimInheritance ext clk st beneficiaryAccount signedDelegation b delegationManagerAddress =
     (case delegationFrom ext (fst signedDelegation) of
        None \<Rightarrow> (Inl TypeError, st)
      | Some vaultAddr \<Rightarrow>
     (case loadVaultData st vaultAddr of
        None \<Rightarrow> (Inl VaultNotFound, st)
      | Some vaultData \<Rightarrow>
          let dl = nextDeadline (config vaultData) in
          if \<not> isDeadlinePassed (tPassed clk) dl
          then (Inl (TooEarly (dl - tRemaining clk)), st)
          else if hasClaimed b then (Inl AlreadyClaimed, st)
          else
            let isNativeToken = (tokenAddress b = ZERO_ADDRESS);
                callData = (if isNativeToken then EmptyCallData
                            else Erc20Transfer (address b) (allocation b));
                tx = \<lparr>ct_manager = delegationManagerAddress,
                      ct_delegation = fst signedDelegation,
                      ct_signature = snd signedDelegation,
                      ct_target = (if isNativeToken then address b else tokenAddress b),
                      ct_value = (if isNativeToken then allocation b else 0),
                      ct_callData = callData\<rparr>
            in case sendClaim ext tx of
                 None \<Rightarrow> (Inl TransactionError, st)
               | Some (h, gas) \<Rightarrow>
                   let res = \<lparr>cr_txHash = h, cr_amount = allocation b, cr_gasUsed = gas\<rparr> in
                   (case findIndex (\<lambda>x. toLowerCase (address x) = toLowerCase (address b))
                                   (beneficiaries vaultData) of
                      None \<Rightarrow> (Inr res, st)
                    | Some i \<Rightarrow>
                        let bs' = (beneficiaries vaultData)
                                    [i := (beneficiaries vaultData ! i)
                                            \<lparr>hasClaimed := True, claimTxHash := Some h,
                                             claimTimestamp := Some (tClaimed clk)\<rparr>]
                        in case saveVaultData st (vaultAddress (config vaultData))
                                  (vaultData\<lparr>beneficiaries := bs', lastUpdated := tUpdated clk\<rparr>) of
                             Inl e \<Rightarrow> (Inl e, st)
                           | Inr st' \<Rightarrow> (Inr res, st'))))"

definition DELEGATION_MANAGER :: string where
  "DELEGATION_MANAGER = ''0x1324Ad9507DD8380F3a03f2E19E77De7E1e8d7Ca''"

definition simpleClaim ::
  "Externals \<Rightarrow> ClaimClock \<Rightarrow> Store \<Rightarrow> string \<Rightarrow> string \<Rightarrow> (vault_error + ClaimResult) \<times> Store"
where
  "simpleClaim ext clk st vaultAddr beneficiaryAccount =
     (case loadVaultData st vaultAddr of
        None \<Rightarrow> (Inl VaultNotFound, st)
      | Some vaultData \<Rightarrow>
          (case find (\<lambda>b. toLowerCase (address b) = toLowerCase beneficiaryAccount)
                     (beneficiaries vaultData) of
             None \<Rightarrow> (Inl BeneficiaryNotFound, st)
           | Some b \<Rightarrow>
               (case getBeneficiaryDelegation st vaultAddr beneficiaryAccount of
                  None \<Rightarrow> (Inl DelegationNotFound, st)
                | Some storedDelegation \<Rightarrow>
                    if isDisabled storedDelegation then (Inl DelegationDisabled, st)
                    else claimInheritance ext clk st beneficiaryAccount
                           (sd_delegation storedDelegation, signature storedDelegation)
                           b DELEGATION_MANAGER)))"

subsection \<open>Status\<close>

text \<open>
  \<open>getVaultStatus\<close> of \<^verbatim>\<open>vault/core/status.ts\<close>; the live balance is an argument.
\<close>

datatype VaultStatus = CREATED | ACTIVE | CLAIMABLE | EMPTY | DISABLED

record VaultState =
  vs_config :: VaultConfig
  vs_beneficiaries :: "Beneficiary list"
  vs_checkIns :: "CheckInRecord list"
  status :: VaultStatus
  timeRemaining :: int
  canCheckIn :: bool

definition getVaultStatus :: "Store \<Rightarrow> int \<Rightarrow> int \<Rightarrow> string \<Rightarrow> vault_error + VaultState" where
  "getVaultStatus st balance now vaultAddr =
     (case loadVaultData st vaultAddr of
        None \<Rightarrow> Inl VaultNotFound
      | Some vaultData \<Rightarrow>
          let cfg = (config vaultData)\<lparr>totalValue := balance\<rparr>;
              timeCalc = calculateTimeRemaining now (nextDeadline cfg);
              activeDelegations = getActiveDelegations st vaultAddr;
              status0 =
                (if length (beneficiaries vaultData) = 0 then CREATED
                 else if balance = 0 then EMPTY
                 else if isPast timeCalc then CLAIMABLE
                 else if length activeDelegations > 0 then ACTIVE
                 else DISABLED);
              allClaimed = list_all hasClaimed (beneficiaries vaultData);
              status1 = (if allClaimed \<and> length (beneficiaries vaultData) > 0 then EMPTY
                         else status0)
          in Inr \<lparr>vs_config = cfg,
                  vs_beneficiaries = beneficiaries vaultData,
                  vs_checkIns = checkIns vaultData,
                  status = status1,
                  timeRemaining = secondsRemaining timeCalc,
                  canCheckIn = (length activeDelegations > 0)\<rparr>)"

subsection \<open>Values the two walks carry faithfully\<close>

text \<open>
  \<open>storable k v\<close>: under key \<open>k\<close> the tree \<open>v\<close> has no undefined value, and it holds
  big integers exactly at the four keys the reviver converts.
\<close>


definition bigKey :: "jskey \<Rightarrow> bool" where
  "bigKey k = (k = Prop ''allocation'' \<or> k = Prop ''totalValue'' \<or>
               k = Prop ''gasUsed'' \<or> k = Prop ''maxAmount'')"

fun storable :: "jskey \<Rightarrow> jsval \<Rightarrow> bool"
  and storable_elems :: "nat \<Rightarrow> jsval list \<Rightarrow> bool"
  and storable_props :: "(string \<times> jsval) list \<Rightarrow> bool"
where
  "storable k JUndefined = False"
| "storable k (JBig n) = bigKey k"
| "storable k (JArr xs) = (\<not> bigKey k \<and> storable_elems 0 xs)"
| "storable k (JObj ps) = (\<not> bigKey k \<and> storable_props ps)"
| "storable k JNull = (\<not> bigKey k)"
| "storable k (JBool b) = (\<not> bigKey k)"
| "storable k (JNum r) = (\<not> bigKey k)"
| "storable k (JStr s) = (\<not> bigKey k)"
| "storable_elems i [] = True"
| "storable_elems i (x # xs) = (storable (Idx i) x \<and> storable_elems (Suc i) xs)"
| "storable_props [] = True"
| "storable_props (p # ps) = (storable (Prop (fst p)) (snd p) \<and> storable_props ps)"

subsection \<open>Auxiliary definitions used in the statements\<close>

text \<open>
  The store that holds exactly one vault record, written by \<open>saveVaultData\<close> itself.
\<close>

definition stored :: "string \<Rightarrow> VaultStorage \<Rightarrow> Store" where
  "stored a d = (case saveVaultData Map.empty a d of Inr st \<Rightarrow> st | Inl e \<Rightarrow> Map.empty)"

text \<open>
  The status of a vault as the specification words it, the clauses read in the order
  they are given: CREATED with no beneficiary; EMPTY with a zero balance or with every
  beneficiary claimed; CLAIMABLE with the deadline passed, a positive balance and not
  every beneficiary claimed; ACTIVE with a beneficiary, a positive balance, the deadline
  not passed and a delegation that is not disabled; DISABLED otherwise (the deadline not
  passed and no delegation that is not disabled).
\<close>

definition spec_status :: "VaultStorage \<Rightarrow> int \<Rightarrow> int \<Rightarrow> VaultStatus" where
  "spec_status v balance now =
     (if length (beneficiaries v) = 0 then CREATED
      else if balance = 0 \<or> (\<forall>b \<in> set (beneficiaries v). hasClaimed b) then EMPTY
      else if nextDeadline (config v) \<le> now \<and> balance > 0 \<and>
              \<not> (\<forall>b \<in> set (beneficiaries v). hasClaimed b) then CLAIMABLE
      else if length (beneficiaries v) \<ge> 1 \<and> balance > 0 \<and> now < nextDeadline (config v) \<and>
              (\<exists>d \<in> set (delegations v). \<not> isDisabled d) then ACTIVE
      else DISABLED)"

text \<open>
  Concrete values for the instances below. The four addresses are written with their
  EIP-55 checksum, so viem's \<^verbatim>\<open>isAddress\<close> accepts each of them; \<open>OWNER\<close> is the account
  of the private key \<open>OWNER_KEY\<close> (the key 1).
\<close>

definition VAULT :: string where
  "VAULT = ''0x00000000000000000000000000000000000000A1''"

definition OWNER :: string where
  "OWNER = ''0x7E5F4552091A69125d5DfCb7b8C2659029395Bdf''"

definition OWNER_KEY :: string where
  "OWNER_KEY = ''0x0000000000000000000000000000000000000000000000000000000000000001''"

definition ALICE :: string where
  "ALICE = ''0x00000000000000000000000000000000000000C3''"

definition BOB :: string where
  "BOB = ''0x00000000000000000000000000000000000000D4''"

definition config0 :: VaultConfig where
  "config0 = \<lparr>vaultAddress = VAULT, ownerAddress = OWNER, checkInPeriod = 5,
              checkInPeriodUnit = MINUTES, lastCheckIn = 1000, nextDeadline = 1300,
              totalValue = 100, tokens = [], createdAt = 1000\<rparr>"

definition alice0 :: Beneficiary where
  "alice0 = \<lparr>address = ALICE, name = ''Alice Jr'', allocation = 40, percentage = 40,
             tokenAddress = ZERO_ADDRESS, delegation = Some (Delegation ''d-alice-0''),
             delegationHash = Some ''0xh-alice-0'', hasClaimed = False, claimTxHash = None,
             claimTimestamp = None\<rparr>"

definition aliceDelegation0 :: StoredDelegation where
  "aliceDelegation0 = \<lparr>beneficiaryAddress = ALICE, sd_delegation = Delegation ''d-alice-0'',
                       signature = ''0xsig-alice-0'', hash = ''0xh-alice-0'',
                       sd_createdAt = 1000, deadline = 1300, isDisabled = False\<rparr>"

definition emptyVault :: VaultStorage where
  "emptyVault = \<lparr>config = config0, beneficiaries = [], delegations = [], checkIns = [],
                 lastUpdated = 1000\<rparr>"

definition vault0 :: VaultStorage where
  "vault0 = \<lparr>config = config0, beneficiaries = [alice0], delegations = [aliceDelegation0],
             checkIns = [], lastUpdated = 1000\<rparr>"

text \<open>
  An instance of the chain and the framework. \<open>isAddress\<close> is viem's check restricted to
  the addresses that occur below. The caveat builder throws on the token caveat, which
  the source gives no token address. The object \<open>simpleClaim\<close> passes on is the stored
  delegation spread out with its signature; the framework's delegation has the
  properties \<^verbatim>\<open>delegate\<close>, \<^verbatim>\<open>delegator\<close>, \<^verbatim>\<open>authority\<close>, \<^verbatim>\<open>caveats\<close>, \<^verbatim>\<open>salt\<close> and
  \<^verbatim>\<open>signature\<close> and none called \<^verbatim>\<open>delegation\<close>, so reading \<^verbatim>\<open>.delegation.from\<close> of it
  throws: \<open>delegationFrom\<close> is \<open>None\<close>.
\<close>

definition isErc20Caveat :: "Caveat \<Rightarrow> bool" where
  "isErc20Caveat c = (case c of Erc20TransferAmountCaveat n \<Rightarrow> True | _ \<Rightarrow> False)"

definition ext0 :: Externals where
  "ext0 = \<lparr>isAddress = (\<lambda>a. a \<in> set [VAULT, OWNER, ALICE, BOB, ZERO_ADDRESS]),
           getBalance = (\<lambda>a. 100),
           privateKeyToAccount = (\<lambda>k. if k = OWNER_KEY then Some OWNER else None),
           buildCaveats = (\<lambda>cs. if list_ex isErc20Caveat cs then None else Some cs),
           createDelegation = (\<lambda>r. Some (Delegation (''d:'' @ dr_to r))),
           signDelegation = (\<lambda>d. Some ''0xsig''),
           keccak256 = (\<lambda>d. case d of Delegation s \<Rightarrow> ''0xh:'' @ s),
           disableDelegation = (\<lambda>d s. DisableConfirmed ''0xtx''),
           getTransactionReceipt = (\<lambda>h. Some 21000),
           delegationFrom = (\<lambda>d. None),
           sendClaim = (\<lambda>tx. Some (''0xclaim'', 50000))\<rparr>"

definition aliceIn :: "int \<Rightarrow> BeneficiaryInput" where
  "aliceIn n = \<lparr>in_address = ALICE, in_name = ''Alice Jr'', in_allocation = n,
                in_tokenAddress = None\<rparr>"

definition bobIn :: "int \<Rightarrow> BeneficiaryInput" where
  "bobIn n = \<lparr>in_address = BOB, in_name = ''Bob Jr'', in_allocation = n,
              in_tokenAddress = None\<rparr>"

text \<open>
  \<open>confirmed ext d\<close>: the disable transaction for \<open>d\<close> is sent and its receipt arrives.
  \<open>markAll ext xs ds\<close>: the stored delegation list \<open>ds\<close> after the disable loop has gone
  through \<open>xs\<close>. \<open>periodSeconds\<close>: a period in its unit, in seconds (a month is 30 days).
\<close>

definition confirmed :: "Externals \<Rightarrow> StoredDelegation \<Rightarrow> bool" where
  "confirmed ext d =
     (case disableDelegation ext (sd_delegation d) (signature d) of
        DisableConfirmed h \<Rightarrow> True
      | _ \<Rightarrow> False)"


fun periodSeconds :: "int \<Rightarrow> PeriodUnit \<Rightarrow> int" where
  "periodSeconds p MINUTES = 60 * p"
| "periodSeconds p HOURS = 3600 * p"
| "periodSeconds p DAYS = 86400 * p"
| "periodSeconds p WEEKS = 604800 * p"
| "periodSeconds p MONTHS = 2592000 * p"

text \<open>
  \<open>effectivePeriod\<close>: the period a check-in counts with, the new one if it is given and
  not zero, else the configured one. \<open>safeInteger\<close> is \<^verbatim>\<open>Number.isSafeInteger\<close> on an
  integer, and \<open>exactDeadline now p u\<close> says that the clock reading, the period in
  seconds and their sum are safe integers: then the doubles of \<open>getDeadlineFromPeriod\<close>
  compute the integer sum exactly.
\<close>

definition effectivePeriod :: "int option \<Rightarrow> VaultConfig \<Rightarrow> int" where
  "effectivePeriod newPeriod cfg =
     (case newPeriod of
        None \<Rightarrow> checkInPeriod cfg
      | Some p \<Rightarrow> if p = 0 then checkInPeriod cfg else p)"

definition safeInteger :: "int \<Rightarrow> bool" where
  "safeInteger n = (\<bar>n\<bar> \<le> 9007199254740991)"

definition exactDeadline :: "int \<Rightarrow> int \<Rightarrow> PeriodUnit \<Rightarrow> bool" where
  "exactDeadline now p u =
     (safeInteger now \<and> safeInteger (periodSeconds p u) \<and> safeInteger (now + periodSeconds p u))"

text \<open>
  \<open>setupClk t\<close>: a clock that reads \<open>t + i\<close> at the beneficiary of index \<open>i\<close> and
  \<open>t + 5\<close> when the record is written.
\<close>

definition setupClk :: "int \<Rightarrow> SetupClock" where
  "setupClk t = \<lparr>tCreated = (\<lambda>i. t + int i), tWritten = t + 5\<rparr>"

definition clk0 :: CheckInClock where
  "clk0 = \<lparr>tDisable = 1990, tDeadline = 2000, tSetup = setupClk 2001, tRecord = 2010,
            tSaved = 2010\<rparr>"

definition clk1 :: CheckInClock where
  "clk1 = \<lparr>tDisable = 2090, tDeadline = 2100, tSetup = setupClk 2101, tRecord = 2110,
            tSaved = 2110\<rparr>"





definition namelessAlice :: Beneficiary where
  "namelessAlice = alice0\<lparr>name := [], allocation := 1000000000000000\<rparr>"

definition longNamedAlice :: Beneficiary where
  "longNamedAlice = alice0\<lparr>name := replicate 51 CHR ''x'', allocation := 1000000000000000\<rparr>"

definition vaultClaimed :: VaultStorage where
  "vaultClaimed = vault0\<lparr>beneficiaries := [alice0\<lparr>hasClaimed := True\<rparr>]\<rparr>"

definition vaultDisabled :: VaultStorage where
  "vaultDisabled = vault0\<lparr>delegations := [aliceDelegation0\<lparr>isDisabled := True\<rparr>]\<rparr>"

definition clkEarly :: ClaimClock where
  "clkEarly = \<lparr>tPassed = 1200, tRemaining = 1200, tClaimed = 1202, tUpdated = 1202\<rparr>"

definition clkLate :: ClaimClock where
  "clkLate = \<lparr>tPassed = 1400, tRemaining = 1400, tClaimed = 1405, tUpdated = 1405\<rparr>"

lemma digit_val_digit_char: "d < 10 \<Longrightarrow> digit_val (digit_char d) = Some d"
  by (simp add: digit_val_def digit_char_def Let_def)

lemma parse_digits_append:
  "parse_digits acc (xs @ ys) =
     (case parse_digits acc xs of None \<Rightarrow> None | Some a \<Rightarrow> parse_digits a ys)"
  by (induction xs arbitrary: acc) (auto split: option.splits)

lemma parse_digits_digits_of: "parse_digits 0 (digits_of n) = Some n"
proof (induction n rule: digits_of.induct)
  case (1 n)
  show ?case
  proof (cases "n < 10")
    case True
    then show ?thesis by (subst digits_of.simps) (simp add: digit_val_digit_char)
  next
    case False
    with 1 have "parse_digits 0 (digits_of (n div 10)) = Some (n div 10)" by simp
    with False show ?thesis
      by (subst digits_of.simps) (simp add: parse_digits_append digit_val_digit_char)
  qed
qed

lemma digits_of_nonempty: "digits_of n \<noteq> []"
  by (subst digits_of.simps) simp

lemma hd_digits_of: "digit_val (hd (digits_of n)) \<noteq> None"
proof (induction n rule: digits_of.induct)
  case (1 n)
  show ?case
  proof (cases "n < 10")
    case True
    then show ?thesis by (subst digits_of.simps) (simp add: digit_val_digit_char)
  next
    case False
    with 1 have "digit_val (hd (digits_of (n div 10))) \<noteq> None" by simp
    with False show ?thesis
      by (subst digits_of.simps) (simp add: digits_of_nonempty)
  qed
qed

lemma StringToBigInt_toString: "StringToBigInt (bigint_toString n) = Some n"
proof (cases "n < 0")
  case True
  then show ?thesis
    by (simp add: StringToBigInt_def bigint_toString_def parse_digits_digits_of digits_of_nonempty)
next
  case False
  obtain c cs where e: "digits_of (nat n) = c # cs"
    using digits_of_nonempty [of "nat n"] by (cases "digits_of (nat n)") auto
  have "digit_val c \<noteq> None" using hd_digits_of [of "nat n"] e by simp
  then have "c \<noteq> CHR ''-''" "c \<noteq> CHR ''+''"
    by (auto simp: digit_val_def)
  moreover have "parse_digits 0 (c # cs) = Some (nat n)"
    using parse_digits_digits_of [of "nat n"] e by simp
  ultimately show ?thesis using False e
    by (simp add: StringToBigInt_def bigint_toString_def)
qed


lemma reviver_plain: "\<not> bigKey k \<Longrightarrow> reviver k v = Some v"
  by (simp add: reviver_def bigKey_def)

lemma reviver_big: "bigKey k \<Longrightarrow> reviver k v = map_option JBig (BigInt v)"
  by (auto simp: reviver_def bigKey_def)

lemma roundtrip_storable:
  "(storable k v \<longrightarrow>
      (\<exists>d. serialize k v = Some d \<and> d \<noteq> JUndefined \<and> internalize k d = Some v))"
  "(storable_elems i xs \<longrightarrow>
      (\<exists>ds. serialize_elems i xs = Some ds \<and> internalize_elems i ds = Some xs))"
  "(storable_props ps \<longrightarrow>
      (\<exists>qs. serialize_props ps = Some qs \<and> internalize_props qs = Some ps))"
proof (induction k v and i xs and ps rule: storable_storable_elems_storable_props.induct)
  case (2 k n)
  then show ?case
    by (simp add: replacer_def reviver_big StringToBigInt_toString)
next
  case (3 k xs)
  then show ?case
    by (auto simp: replacer_def reviver_plain)
next
  case (4 k ps)
  then show ?case
    by (auto simp: replacer_def reviver_plain)
next
  case (10 i x xs)
  then show ?case by auto
next
  case (12 p ps)
  then show ?case by (cases p) auto
qed (simp_all add: replacer_def reviver_plain)


lemma storable_elems_map:
  "(\<And>x j. storable (Idx j) (f x)) \<Longrightarrow> storable_elems i (map f xs)"
  by (induction xs arbitrary: i) auto

lemma storable_Delegation [simp]: "storable (Idx j) (Delegation_toJS d) " "storable (Prop ''delegation'') (Delegation_toJS d)"
  by (cases d; simp add: bigKey_def)+

lemma storable_PeriodUnit [simp]: "storable (Prop ''checkInPeriodUnit'') (PeriodUnit_toJS u)"
  by (cases u) (simp_all add: bigKey_def)

lemma storable_VaultConfig: "storable (Prop ''config'') (VaultConfig_toJS c)"
  by (simp add: VaultConfig_toJS_def bigKey_def JInt_def storable_elems_map)

lemma storable_Beneficiary: "storable (Idx j) (Beneficiary_toJS b)"
  by (simp add: Beneficiary_toJS_def bigKey_def JInt_def optProp_def split: option.splits)

lemma storable_StoredDelegation: "storable (Idx j) (StoredDelegation_toJS d)"
  by (simp add: StoredDelegation_toJS_def bigKey_def JInt_def)

lemma storable_CheckInRecord: "storable (Idx j) (CheckInRecord_toJS r)"
  by (simp add: CheckInRecord_toJS_def bigKey_def JInt_def)

lemma storable_VaultStorage: "storable (Prop []) (VaultStorage_toJS s)"
  by (simp add: VaultStorage_toJS_def bigKey_def JInt_def storable_VaultConfig
      storable_elems_map storable_Beneficiary storable_StoredDelegation storable_CheckInRecord)

lemma those_map_Some: "(\<And>x. g (f x) = Some x) \<Longrightarrow> those (map (g \<circ> f) xs) = Some xs"
  by (induction xs) auto

lemma PeriodUnit_ofJS_toJS [simp]: "PeriodUnit_ofJS (PeriodUnit_toJS u) = Some u"
  by (cases u) (simp_all add: PeriodUnit_ofJS_def)

lemma Delegation_ofJS_toJS [simp]: "Delegation_ofJS (Delegation_toJS d) = Some d"
  by (cases d) (simp add: Delegation_ofJS_def)

lemma asOptional_Delegation [simp]:
  "asOptional Delegation_ofJS (Delegation_toJS d) = Some (Some d)"
  by (cases d) (simp add: Delegation_ofJS_def)

lemma VaultConfig_ofJS_toJS: "VaultConfig_ofJS (VaultConfig_toJS c) = Some c"
  by (simp add: VaultConfig_ofJS_def VaultConfig_toJS_def JInt_def those_map_Some)

lemma Beneficiary_ofJS_toJS: "Beneficiary_ofJS (Beneficiary_toJS b) = Some b"
  by (simp add: Beneficiary_ofJS_def Beneficiary_toJS_def JInt_def optProp_def
      split: option.splits)

lemma StoredDelegation_ofJS_toJS: "StoredDelegation_ofJS (StoredDelegation_toJS d) = Some d"
  by (simp add: StoredDelegation_ofJS_def StoredDelegation_toJS_def JInt_def)

lemma CheckInRecord_ofJS_toJS: "CheckInRecord_ofJS (CheckInRecord_toJS r) = Some r"
  by (simp add: CheckInRecord_ofJS_def CheckInRecord_toJS_def JInt_def)

lemma VaultStorage_ofJS_toJS: "VaultStorage_ofJS (VaultStorage_toJS s) = Some s"
  by (simp add: VaultStorage_ofJS_def VaultStorage_toJS_def JInt_def those_map_Some
      VaultConfig_ofJS_toJS Beneficiary_ofJS_toJS StoredDelegation_ofJS_toJS
      CheckInRecord_ofJS_toJS)

lemma saveVaultData_ok:
  "\<exists>doc. saveVaultData st a d = Inr (st(toLowerCase a \<mapsto> doc)) \<and>
         internalize (Prop []) doc = Some (VaultStorage_toJS d)"
  using roundtrip_storable(1) [of "Prop []" "VaultStorage_toJS d"] storable_VaultStorage [of d]
  by (auto simp: saveVaultData_def)

lemma saveVaultData_not_Inl [simp]: "saveVaultData st a d \<noteq> Inl e"
  using saveVaultData_ok [of st a d] by auto

lemma load_save_same:
  "saveVaultData st a d = Inr st' \<Longrightarrow> toLowerCase a' = toLowerCase a \<Longrightarrow>
     loadVaultData st' a' = Some d"
  using saveVaultData_ok [of st a d]
  by (auto simp: loadVaultData_def VaultStorage_ofJS_toJS)

lemma load_save_other:
  "saveVaultData st a d = Inr st' \<Longrightarrow> toLowerCase a' \<noteq> toLowerCase a \<Longrightarrow>
     loadVaultData st' a' = loadVaultData st a'"
  using saveVaultData_ok [of st a d]
  by (auto simp: loadVaultData_def)

section \<open>setupBeneficiaries\<close>

lemma foldl_plus: "foldl (\<lambda>sum b. sum + f b) acc xs = acc + sum_list (map f xs)"
  for acc :: int
  by (induction xs arbitrary: acc) auto

lemma validateEach_error:
  "validateEach isAddr inputs = Some e \<Longrightarrow> \<exists>f. e = ValidationError f"
  by (induction inputs) (auto simp: Let_def split: if_splits)

lemma createOne_shape:
  assumes "createOne ext now i a dl bal b = Inr p"
  shows "address (fst p) = in_address b \<and> name (fst p) = in_name b \<and>
         allocation (fst p) = in_allocation b \<and> \<not> hasClaimed (fst p) \<and>
         beneficiaryAddress (snd p) = in_address b \<and> deadline (snd p) = dl \<and>
         \<not> isDisabled (snd p) \<and> sd_createdAt (snd p) = tCreated now i"
  using assms
  by (auto simp: createOne_def Let_def split: option.splits if_splits)

lemma createAll_shape:
  "createAll ext now i a dl bal inputs = Inr created \<Longrightarrow>
     map (address \<circ> fst) created = map in_address inputs \<and>
     map (name \<circ> fst) created = map in_name inputs \<and>
     map (allocation \<circ> fst) created = map in_allocation inputs \<and>
     map (beneficiaryAddress \<circ> snd) created = map in_address inputs \<and>
     (\<forall>p \<in> set created. \<not> isDisabled (snd p) \<and> deadline (snd p) = dl \<and>
                          \<not> hasClaimed (fst p))"
proof (induction inputs arbitrary: created i)
  case Nil
  then show ?case by simp
next
  case (Cons b bs)
  from Cons.prems obtain p ps where
    p: "createOne ext now i a dl bal b = Inr p" and
    ps: "createAll ext now (Suc i) a dl bal bs = Inr ps" and
    c: "created = p # ps"
    by (auto split: sum.splits)
  from Cons.IH [OF ps] createOne_shape [OF p] c show ?case by simp
qed


lemma setupBeneficiaries_cases:
  assumes "setupBeneficiaries ext now st a inputs dl = (r, st')"
  shows "(\<exists>e. r = Inl e \<and> st' = st \<and>
            (sum_list (map in_allocation inputs) > getBalance ext a \<longrightarrow>
               (\<exists>f. e = ValidationError f))) \<or>
         (\<exists>created. createAll ext now 0 a dl (getBalance ext a) inputs = Inr created \<and>
            r = Inr (map fst created) \<and>
            sum_list (map in_allocation inputs) \<le> getBalance ext a \<and>
            (case loadVaultData st a of
               None \<Rightarrow> st' = st
             | Some v \<Rightarrow>
                 saveVaultData st a (v\<lparr>beneficiaries := map fst created,
                                       delegations := map snd created,
                                       lastUpdated := tWritten now\<rparr>) = Inr st'))"
  using assms validateEach_error [of "isAddress ext" inputs]
  by (auto simp: setupBeneficiaries_def Let_def foldl_plus
      split: if_splits option.splits sum.splits)

lemma setupBeneficiaries_success:
  assumes "setupBeneficiaries ext now st a inputs dl = (Inr bs, st')"
      and "loadVaultData st a = Some v"
  shows "\<exists>created. createAll ext now 0 a dl (getBalance ext a) inputs = Inr created \<and>
           bs = map fst created \<and>
           loadVaultData st' a =
             Some (v\<lparr>beneficiaries := map fst created, delegations := map snd created,
                     lastUpdated := tWritten now\<rparr>)"
proof -
  from setupBeneficiaries_cases [OF assms(1)] assms(2)
  obtain created where
    c: "createAll ext now 0 a dl (getBalance ext a) inputs = Inr created" and
    b: "bs = map fst created" and
    s: "saveVaultData st a (v\<lparr>beneficiaries := map fst created,
                               delegations := map snd created,
                               lastUpdated := tWritten now\<rparr>) = Inr st'"
    by auto
  from load_save_same [OF s refl] c b show ?thesis by blast
qed

lemma setupBeneficiaries_result_any_store:
  "fst (setupBeneficiaries ext now st a inputs dl) =
   fst (setupBeneficiaries ext now st0 a inputs dl)"
  by (auto simp: setupBeneficiaries_def Let_def split: option.splits sum.splits)

section \<open>checkIn\<close>

lemma getDeadlineFromPeriod_seconds:
  "getDeadlineFromPeriod now p u = now + periodSeconds p u"
  by (cases u) (simp_all add: getDeadlineFromPeriod_def)

lemma setFirstDisabled_fields:
  "setFirstDisabled h x ds = Some ds' \<Longrightarrow>
     map hash ds' = map hash ds \<and> map beneficiaryAddress ds' = map beneficiaryAddress ds \<and>
     map deadline ds' = map deadline ds \<and> length ds' = length ds"
  by (induction ds arbitrary: ds') (auto split: if_splits)



lemma disableLoop_count:
  "fst (snd (disableLoop ext t a xs (st, n, hs))) = n + int (length (filter (confirmed ext) xs))"
proof (induction xs arbitrary: st n hs)
  case Nil
  then show ?case by simp
next
  case (Cons d ds)
  have u: "\<exists>b st'. updateDelegationStatus st t a (hash d) True = (Inr b, st')"
    by (auto simp: updateDelegationStatus_def split: option.splits sum.splits)
  show ?case
  proof (cases "disableDelegation ext (sd_delegation d) (signature d)")
    case DisableThrows
    with Cons.IH show ?thesis by (simp add: confirmed_def)
  next
    case (ReceiptThrows h)
    with Cons.IH show ?thesis by (simp add: confirmed_def)
  next
    case (DisableConfirmed h)
    from u obtain b st' where "updateDelegationStatus st t a (hash d) True = (Inr b, st')"
      by blast
    with DisableConfirmed Cons.IH [of st' "n + 1" "hs @ [h]"] show ?thesis
      by (simp add: confirmed_def)
  qed
qed

lemma setupBeneficiaries_created_length:
  "fst (setupBeneficiaries ext now st a inputs dl) = Inr bs \<Longrightarrow> length bs = length inputs"
proof -
  assume ok: "fst (setupBeneficiaries ext now st a inputs dl) = Inr bs"
  obtain r st' where r: "setupBeneficiaries ext now st a inputs dl = (r, st')"
    by (cases "setupBeneficiaries ext now st a inputs dl")
  from setupBeneficiaries_cases [OF r] ok r
  obtain created where "createAll ext now 0 a dl (getBalance ext a) inputs = Inr created"
    "bs = map fst created"
    by auto
  with createAll_shape [of ext now 0 a dl "getBalance ext a" inputs created]
  show ?thesis by (metis length_map)
qed

lemma createAll_error:
  "createAll ext now i a dl bal inputs = Inl e \<Longrightarrow>
     e = ConstructionError \<or> e = SigningError \<or> (e = RangeError \<and> bal = 0 \<and> inputs \<noteq> [])"
  by (induction inputs arbitrary: i)
    (auto simp: createOne_def Let_def split: sum.splits option.splits if_splits)

lemma validateEach_positive:
  "validateEach isAddr inputs = None \<Longrightarrow> \<forall>b \<in> set inputs. 0 < in_allocation b"
  by (induction inputs) (auto simp: Let_def split: if_splits)

lemma sum_list_positive:
  "\<forall>b \<in> set inputs. 0 < f b \<Longrightarrow> inputs \<noteq> [] \<Longrightarrow> 0 < sum_list (map f inputs)"
  for f :: "'a \<Rightarrow> int"
proof (induction inputs)
  case Nil
  then show ?case by simp
next
  case (Cons b bs)
  then show ?case by (cases bs) auto
qed

lemma setupBeneficiaries_error:
  assumes "fst (setupBeneficiaries ext now st a inputs dl) = Inl e"
  shows "(\<exists>f. e = ValidationError f) \<or> e = ConstructionError \<or> e = SigningError"
proof (cases "e = RangeError")
  case False
  with assms show ?thesis
    using validateEach_error [of "isAddress ext" inputs]
      createAll_error [of ext now 0 a dl "getBalance ext a" inputs]
    by (auto simp: setupBeneficiaries_def Let_def split: if_splits option.splits sum.splits)
next
  case True
  with assms have
    v: "validateEach (isAddress ext) inputs = None" and
    t: "sum_list (map in_allocation inputs) \<le> getBalance ext a" and
    c: "createAll ext now 0 a dl (getBalance ext a) inputs = Inl RangeError"
    using validateEach_error [of "isAddress ext" inputs]
    by (auto simp: setupBeneficiaries_def Let_def foldl_plus
        split: if_splits option.splits sum.splits)
  from createAll_error [OF c] have z: "getBalance ext a = 0" "inputs \<noteq> []" by auto
  from sum_list_positive [OF validateEach_positive [OF v] z(2)] t z(1) show ?thesis by simp
qed

lemma checkIn_success:
  assumes "checkIn ext clk st a bens np key = (Inr r, st')"
      and "loadVaultData st a = Some v"
  shows "newDeadline r =
           getDeadlineFromPeriod (tDeadline clk)
             (case np of None \<Rightarrow> checkInPeriod (config v)
                | Some p \<Rightarrow> if p \<noteq> 0 then p else checkInPeriod (config v))
             (checkInPeriodUnit (config v)) \<and>
         loadVaultData st' a =
           Some (v\<lparr>config := (config v)
                     \<lparr>lastCheckIn := tRecord clk,
                      nextDeadline := newDeadline r,
                      checkInPeriod :=
                        (case np of None \<Rightarrow> checkInPeriod (config v)
                           | Some p \<Rightarrow> if p \<noteq> 0 then p else checkInPeriod (config v))\<rparr>,
                   checkIns := checkIns v @ [r],
                   lastUpdated := tSaved clk\<rparr>) \<and>
         getActiveDelegations st a \<noteq> [] \<and>
         privateKeyToAccount ext key \<noteq> None"
proof -
  have ls: "\<And>s d s'. saveVaultData s a d = Inr s' \<Longrightarrow> loadVaultData s' a = Some d"
    by (rule load_save_same [OF _ refl])
  show ?thesis
    using assms
    apply (simp add: checkIn_def Let_def split: if_splits prod.splits sum.splits option.splits)
    apply (auto dest!: ls)
    done
qed

lemma checkIn_outcome:
  assumes "loadVaultData st vaultAddr = Some v"
  shows "(fst (checkIn ext clk st vaultAddr bens newPeriod key) = Inl NoActiveDelegations
            \<longleftrightarrow> getActiveDelegations st vaultAddr = []) \<and>
         (getActiveDelegations st vaultAddr = [] \<longrightarrow>
            snd (checkIn ext clk st vaultAddr bens newPeriod key) = st) \<and>
         (getActiveDelegations st vaultAddr \<noteq> [] \<longrightarrow> privateKeyToAccount ext key = None \<longrightarrow>
            checkIn ext clk st vaultAddr bens newPeriod key = (Inl InvalidPrivateKey, st)) \<and>
         (getActiveDelegations st vaultAddr \<noteq> [] \<longrightarrow> privateKeyToAccount ext key \<noteq> None \<longrightarrow>
            (case fst (setupBeneficiaries ext (tSetup clk) st vaultAddr (map toInput bens)
                         (getDeadlineFromPeriod (tDeadline clk)
                            (case newPeriod of None \<Rightarrow> checkInPeriod (config v)
                               | Some p \<Rightarrow> if p \<noteq> 0 then p else checkInPeriod (config v))
                            (checkInPeriodUnit (config v)))) of
               Inl e \<Rightarrow> fst (checkIn ext clk st vaultAddr bens newPeriod key) = Inl e
             | Inr created \<Rightarrow>
                 (\<exists>r. fst (checkIn ext clk st vaultAddr bens newPeriod key) = Inr r \<and>
                      disabledDelegationCount r =
                        int (length (filter (confirmed ext) (getActiveDelegations st vaultAddr))) \<and>
                      createdDelegationCount r = int (length bens))))"
proof -
  let ?act = "getActiveDelegations st vaultAddr"
  let ?D = "getDeadlineFromPeriod (tDeadline clk)
              (case newPeriod of None \<Rightarrow> checkInPeriod (config v)
                 | Some p \<Rightarrow> if p \<noteq> 0 then p else checkInPeriod (config v))
              (checkInPeriodUnit (config v))"
  let ?ins = "map toInput bens"
  let ?c = "checkIn ext clk st vaultAddr bens newPeriod key"
  obtain st1 n hs where
    dl: "disableLoop ext (tDisable clk) vaultAddr ?act (st, 0, []) = (st1, n, hs)"
    by (cases "disableLoop ext (tDisable clk) vaultAddr ?act (st, 0, [])") auto
  have n: "n = int (length (filter (confirmed ext) ?act))"
    using disableLoop_count [of ext "tDisable clk" vaultAddr ?act st 0 "[]"] dl by simp
  have same: "fst (setupBeneficiaries ext (tSetup clk) st1 vaultAddr ?ins ?D) =
              fst (setupBeneficiaries ext (tSetup clk) st vaultAddr ?ins ?D)"
    by (rule setupBeneficiaries_result_any_store)
  obtain x st2 where
    s: "setupBeneficiaries ext (tSetup clk) st1 vaultAddr ?ins ?D = (x, st2)"
    by (cases "setupBeneficiaries ext (tSetup clk) st1 vaultAddr ?ins ?D")
  show ?thesis
  proof (cases "?act = []")
    case True
    with assms show ?thesis by (simp add: checkIn_def)
  next
    case False
    show ?thesis
    proof (cases "privateKeyToAccount ext key")
      case None
      with assms False show ?thesis by (simp add: checkIn_def)
    next
      case (Some acct)
      show ?thesis
      proof (cases x)
        case (Inl e)
        with s have "fst (setupBeneficiaries ext (tSetup clk) st1 vaultAddr ?ins ?D) = Inl e"
          by simp
        from setupBeneficiaries_error [OF this] have ne: "e \<noteq> NoActiveDelegations" by auto
        from Inl s dl assms False Some have c: "fst ?c = Inl e"
          by (simp add: checkIn_def Let_def)
        from same s Inl
        have o: "fst (setupBeneficiaries ext (tSetup clk) st vaultAddr ?ins ?D) = Inl e"
          by simp
        from ne False c Some show ?thesis by (simp add: o)
      next
        case (Inr created)
        with s have ok: "fst (setupBeneficiaries ext (tSetup clk) st1 vaultAddr ?ins ?D) = Inr created"
          by simp
        from setupBeneficiaries_created_length [OF ok] have len: "length created = length bens"
          by simp
        from Inr s dl assms False n len Some
        have "\<exists>r. fst ?c = Inr r \<and>
                 disabledDelegationCount r = int (length (filter (confirmed ext) ?act)) \<and>
                 createdDelegationCount r = int (length bens)"
          by (auto simp: checkIn_def Let_def split: sum.splits)
        moreover from same s Inr
        have o: "fst (setupBeneficiaries ext (tSetup clk) st vaultAddr ?ins ?D) = Inr created"
          by simp
        ultimately show ?thesis using False Some by (auto simp: o)
      qed
    qed
  qed
qed

section \<open>claim\<close>

lemma simpleClaim_guards:
  assumes "loadVaultData st a = Some v"
      and "find (\<lambda>b. toLowerCase (address b) = toLowerCase acct) (beneficiaries v) = Some b"
      and "find (\<lambda>d. toLowerCase (beneficiaryAddress d) = toLowerCase acct) (delegations v)
             = Some sd"
  shows "simpleClaim ext clk st a acct =
           (if isDisabled sd then (Inl DelegationDisabled, st)
            else claimInheritance ext clk st acct (sd_delegation sd, signature sd) b
                   DELEGATION_MANAGER)"
  using assms by (simp add: simpleClaim_def getBeneficiaryDelegation_def)

lemma claimInheritance_no_vault_address:
  "delegationFrom ext (fst signedDelegation) = None \<Longrightarrow>
     claimInheritance ext clk st acct signedDelegation b manager = (Inl TypeError, st)"
  by (simp add: claimInheritance_def)

lemma claimInheritance_guards:
  assumes "delegationFrom ext (fst signedDelegation) = Some a"
      and "loadVaultData st a = Some v"
  shows "tPassed clk < nextDeadline (config v) \<Longrightarrow>
           claimInheritance ext clk st acct signedDelegation b manager =
             (Inl (TooEarly (nextDeadline (config v) - tRemaining clk)), st)"
    and "nextDeadline (config v) \<le> tPassed clk \<Longrightarrow> hasClaimed b \<Longrightarrow>
           claimInheritance ext clk st acct signedDelegation b manager = (Inl AlreadyClaimed, st)"
  using assms by (simp_all add: claimInheritance_def isDeadlinePassed_def Let_def)

section \<open>The disable loop on the stored list\<close>







section \<open>The instance\<close>

text \<open>
  With \<open>ext0\<close>, whether \<open>setupBeneficiaries\<close> succeeds depends neither on the clock, nor on
  the deadline, nor on the store; so a check-in of Alice on a vault that stores her
  active delegation succeeds at every clock and with every new period.
\<close>

lemma effectivePeriod_case:
  "(case np of None \<Rightarrow> checkInPeriod cfg | Some p \<Rightarrow> if p \<noteq> 0 then p else checkInPeriod cfg)
     = effectivePeriod np cfg"
  by (simp add: effectivePeriod_def split: option.splits)

lemma createOne_ext0_isl:
  "isl (createOne ext0 clk i a dl bal b) = isl (createOne ext0 clk' i' a dl' bal b)"
  by (simp add: createOne_def ext0_def Let_def isErc20Caveat_def)

lemma createAll_ext0_isl:
  "isl (createAll ext0 clk i a dl bal bs) = isl (createAll ext0 clk' i' a dl' bal bs)"
proof (induction bs arbitrary: i i')
  case Nil
  then show ?case by simp
next
  case (Cons b bs)
  from createOne_ext0_isl [of clk i a dl bal b clk' i' dl'] Cons.IH [of "Suc i" "Suc i'"]
  show ?case by (auto split: sum.splits)
qed

lemma setupBeneficiaries_ext0_isl:
  "isl (fst (setupBeneficiaries ext0 now st a inputs dl)) =
   isl (fst (setupBeneficiaries ext0 now' st' a inputs dl'))"
  using createAll_ext0_isl [of now 0 a dl "getBalance ext0 a" inputs now' 0 dl']
  by (auto simp: setupBeneficiaries_def Let_def split: option.splits sum.splits)

lemma setupBeneficiaries_alice0:
  "\<exists>created. fst (setupBeneficiaries ext0 now st VAULT (map toInput [alice0]) dl) = Inr created"
proof -
  have "\<not> isl (fst (setupBeneficiaries ext0 (setupClk 0) Map.empty VAULT (map toInput [alice0]) 0))"
    by code_simp
  with setupBeneficiaries_ext0_isl [of now st VAULT "map toInput [alice0]" dl "setupClk 0" Map.empty 0]
  have "\<not> isl (fst (setupBeneficiaries ext0 now st VAULT (map toInput [alice0]) dl))"
    by simp
  then show ?thesis
    by (cases "fst (setupBeneficiaries ext0 now st VAULT (map toInput [alice0]) dl)") auto
qed

lemma checkIn_alice0:
  assumes l: "loadVaultData st VAULT = Some v"
      and d: "delegations v = [aliceDelegation0]"
  shows "\<exists>r st'. checkIn ext0 clk st VAULT [alice0] np OWNER_KEY = (Inr r, st') \<and>
           disabledDelegationCount r = 1 \<and> createdDelegationCount r = 1 \<and>
           newDeadline r =
             tDeadline clk + periodSeconds (effectivePeriod np (config v))
                                           (checkInPeriodUnit (config v)) \<and>
           loadVaultData st' VAULT =
             Some (v\<lparr>config := (config v)
                       \<lparr>lastCheckIn := tRecord clk,
                        nextDeadline := newDeadline r,
                        checkInPeriod := effectivePeriod np (config v)\<rparr>,
                     checkIns := checkIns v @ [r],
                     lastUpdated := tSaved clk\<rparr>)"
proof -
  let ?c = "checkIn ext0 clk st VAULT [alice0] np OWNER_KEY"
  have a: "getActiveDelegations st VAULT = [aliceDelegation0]"
    using l d by (simp add: getActiveDelegations_def aliceDelegation0_def)
  have f: "filter (confirmed ext0) [aliceDelegation0] = [aliceDelegation0]"
    by code_simp
  have k: "privateKeyToAccount ext0 OWNER_KEY \<noteq> None"
    by (simp add: ext0_def)
  from setupBeneficiaries_alice0 obtain created where
    ok: "fst (setupBeneficiaries ext0 (tSetup clk) st VAULT (map toInput [alice0])
                (getDeadlineFromPeriod (tDeadline clk)
                   (case np of None \<Rightarrow> checkInPeriod (config v)
                      | Some p \<Rightarrow> if p \<noteq> 0 then p else checkInPeriod (config v))
                   (checkInPeriodUnit (config v)))) = Inr created"
    by blast
  from checkIn_outcome [OF l, of ext0 clk "[alice0]" np OWNER_KEY] a f k ok
  obtain r where r: "fst ?c = Inr r" "disabledDelegationCount r = 1"
      "createdDelegationCount r = 1"
    by auto
  obtain st' where c: "?c = (Inr r, st')" using r(1) by (cases ?c) auto
  from checkIn_success [OF c l]
  have n: "newDeadline r =
             tDeadline clk + periodSeconds (effectivePeriod np (config v))
                                           (checkInPeriodUnit (config v))" and
    s: "loadVaultData st' VAULT =
             Some (v\<lparr>config := (config v)
                       \<lparr>lastCheckIn := tRecord clk,
                        nextDeadline := newDeadline r,
                        checkInPeriod := effectivePeriod np (config v)\<rparr>,
                     checkIns := checkIns v @ [r],
                     lastUpdated := tSaved clk\<rparr>)"
    by (simp_all add: effectivePeriod_case getDeadlineFromPeriod_seconds)
  from c r(2,3) n s show ?thesis by blast
qed

section \<open>Persistence round trip\<close>

lemma load_stored: "toLowerCase a' = toLowerCase a \<Longrightarrow> loadVaultData (stored a d) a' = Some d"
proof -
  assume k: "toLowerCase a' = toLowerCase a"
  obtain doc where s: "saveVaultData Map.empty a d = Inr (Map.empty(toLowerCase a \<mapsto> doc))"
    using saveVaultData_ok [of Map.empty a d] by blast
  then have "stored a d = Map.empty(toLowerCase a \<mapsto> doc)" by (simp add: stored_def)
  with load_save_same [OF s k] show ?thesis by simp
qed

text \<open>
  C7. Saving a vault record and loading it back under the same identifier returns the
  record itself: every \<open>allocation\<close>, \<open>totalValue\<close> and \<open>gasUsed\<close> is the
  integer that was saved, and the beneficiary list has the same entries in the same order.
  The replacer and reviver are also exact on a big integer held under the key
  \<open>maxAmount\<close>, the fourth key the reviver names.
\<close>

theorem save_load_roundtrip:
  "(\<exists>st'. saveVaultData st vaultId vaultRecord = Inr st' \<and>
      (\<exists>loaded. loadVaultData st' vaultId = Some loaded \<and>
         map allocation (beneficiaries loaded) = map allocation (beneficiaries vaultRecord) \<and>
         totalValue (config loaded) = totalValue (config vaultRecord) \<and>
         map gasUsed (checkIns loaded) = map gasUsed (checkIns vaultRecord) \<and>
         map address (beneficiaries loaded) = map address (beneficiaries vaultRecord) \<and>
         loaded = vaultRecord)) \<and>
   (\<exists>doc. serialize (Prop ''maxAmount'') (JBig n) = Some doc \<and>
      internalize (Prop ''maxAmount'') doc = Some (JBig n))"
proof
  obtain doc where s: "saveVaultData st vaultId vaultRecord = Inr (st(toLowerCase vaultId \<mapsto> doc))"
    using saveVaultData_ok [of st vaultId vaultRecord] by blast
  from load_save_same [OF s refl]
  have "loadVaultData (st(toLowerCase vaultId \<mapsto> doc)) vaultId = Some vaultRecord" .
  with s show "\<exists>st'. saveVaultData st vaultId vaultRecord = Inr st' \<and>
      (\<exists>loaded. loadVaultData st' vaultId = Some loaded \<and>
         map allocation (beneficiaries loaded) = map allocation (beneficiaries vaultRecord) \<and>
         totalValue (config loaded) = totalValue (config vaultRecord) \<and>
         map gasUsed (checkIns loaded) = map gasUsed (checkIns vaultRecord) \<and>
         map address (beneficiaries loaded) = map address (beneficiaries vaultRecord) \<and>
         loaded = vaultRecord)"
    by auto
next
  have "storable (Prop ''maxAmount'') (JBig n)" by (simp add: bigKey_def)
  with roundtrip_storable(1) [of "Prop ''maxAmount''" "JBig n"]
  show "\<exists>doc. serialize (Prop ''maxAmount'') (JBig n) = Some doc \<and>
      internalize (Prop ''maxAmount'') doc = Some (JBig n)"
    by blast
qed

theorem save_load_roundtrip_witness:
  "\<exists>st'. saveVaultData Map.empty VAULT vault0 = Inr st' \<and>
      loadVaultData st' VAULT = Some vault0"
  using save_load_roundtrip [of Map.empty VAULT vault0 40] by auto

section \<open>Status\<close>

lemma getActiveDelegations_load:
  "loadVaultData st a = Some v \<Longrightarrow>
     getActiveDelegations st a = filter (\<lambda>d. \<not> isDisabled d) (delegations v)"
  by (simp add: getActiveDelegations_def)

lemma filter_nonempty_iff: "(0 < length (filter P xs)) = (\<exists>x \<in> set xs. P x)"
  by (induction xs) auto

text \<open>
  C1. For a stored vault record, a live balance (never negative) and a current time,
  \<open>getVaultStatus\<close> returns a state whose status is a function of these three alone,
  namely the status the specification describes: CREATED, EMPTY, CLAIMABLE, ACTIVE or
  DISABLED as decided by \<open>spec_status\<close>.
\<close>

theorem getVaultStatus_status:
  assumes "loadVaultData st vaultAddr = Some v" and "0 \<le> balance"
  shows "\<exists>s. getVaultStatus st balance now vaultAddr = Inr s \<and>
           status s = spec_status v balance now"
proof -
  let ?active = "filter (\<lambda>d. \<not> isDisabled d) (delegations v)"
  have a: "getActiveDelegations st vaultAddr = ?active"
    using assms(1) by (rule getActiveDelegations_load)
  have b: "(0 < length ?active) = (\<exists>d \<in> set (delegations v). \<not> isDisabled d)"
    by (rule filter_nonempty_iff)
  show ?thesis
    using assms b
    by (auto simp: getVaultStatus_def a spec_status_def calculateTimeRemaining_def
        Let_def list_all_iff Suc_le_eq)
qed

theorem getVaultStatus_status_witness:
  "loadVaultData (stored VAULT emptyVault) VAULT = Some emptyVault \<and>
   (\<exists>s. getVaultStatus (stored VAULT emptyVault) 100 1000 VAULT = Inr s \<and> status s = CREATED) \<and>
   loadVaultData (stored VAULT vault0) VAULT = Some vault0 \<and>
   (\<exists>s. getVaultStatus (stored VAULT vault0) 100 1000 VAULT = Inr s \<and> status s = ACTIVE) \<and>
   (\<exists>s. getVaultStatus (stored VAULT vault0) 100 1300 VAULT = Inr s \<and> status s = CLAIMABLE)"
proof -
  have l0: "loadVaultData (stored VAULT emptyVault) VAULT = Some emptyVault"
    and l1: "loadVaultData (stored VAULT vault0) VAULT = Some vault0"
    by (rule load_stored [OF refl])+
  have p: "(0::int) \<le> 100" by simp
  have s0: "spec_status emptyVault 100 1000 = CREATED"
    and s1: "spec_status vault0 100 1000 = ACTIVE"
    and s2: "spec_status vault0 100 1300 = CLAIMABLE"
    by code_simp+
  from getVaultStatus_status [OF l0 p, of 1000] getVaultStatus_status [OF l1 p, of 1000]
    getVaultStatus_status [OF l1 p, of 1300] l0 l1 s0 s1 s2
  show ?thesis by simp
qed

section \<open>Setting up beneficiaries\<close>

text \<open>
  C5. A beneficiary set whose allocations sum to more than the live balance makes
  \<open>setupBeneficiaries\<close> fail with a validation error and leaves the store, hence the
  stored beneficiary list, as it was. Conversely a set that \<open>setupBeneficiaries\<close>
  accepts, and a set that \<open>validateBeneficiaryAllocations\<close> accepts, sums to at most
  the balance.
\<close>

theorem setupBeneficiaries_overallocation:
  "(sum_list (map in_allocation inputs) > getBalance ext vaultAddr \<longrightarrow>
      (\<exists>f. setupBeneficiaries ext now st vaultAddr inputs dl = (Inl (ValidationError f), st))) \<and>
   (fst (setupBeneficiaries ext now st vaultAddr inputs dl) = Inr bs \<longrightarrow>
      sum_list (map in_allocation inputs) \<le> getBalance ext vaultAddr) \<and>
   (isValid (validateBeneficiaryAllocations bens vaultBalance) \<longrightarrow>
      sum_list (map allocation bens) \<le> vaultBalance)"
proof (intro conjI impI)
  assume over: "sum_list (map in_allocation inputs) > getBalance ext vaultAddr"
  obtain r st' where r: "setupBeneficiaries ext now st vaultAddr inputs dl = (r, st')"
    by (cases "setupBeneficiaries ext now st vaultAddr inputs dl")
  from setupBeneficiaries_cases [OF r] over r
  show "\<exists>f. setupBeneficiaries ext now st vaultAddr inputs dl = (Inl (ValidationError f), st)"
    by auto
next
  assume ok: "fst (setupBeneficiaries ext now st vaultAddr inputs dl) = Inr bs"
  obtain r st' where r: "setupBeneficiaries ext now st vaultAddr inputs dl = (r, st')"
    by (cases "setupBeneficiaries ext now st vaultAddr inputs dl")
  from setupBeneficiaries_cases [OF r] ok r
  show "sum_list (map in_allocation inputs) \<le> getBalance ext vaultAddr"
    by auto
next
  assume "isValid (validateBeneficiaryAllocations bens vaultBalance)"
  then show "sum_list (map allocation bens) \<le> vaultBalance"
    by (simp add: validateBeneficiaryAllocations_def invalid_def Let_def foldl_plus
        split: if_splits option.splits)
qed

theorem setupBeneficiaries_overallocation_witness:
  "sum_list (map in_allocation [aliceIn 150]) > getBalance ext0 VAULT \<and>
   (\<exists>f. setupBeneficiaries ext0 (setupClk 1000) (stored VAULT vault0) VAULT [aliceIn 150] 1300 =
          (Inl (ValidationError f), stored VAULT vault0)) \<and>
   (\<exists>bs. fst (setupBeneficiaries ext0 (setupClk 1000) (stored VAULT vault0) VAULT [aliceIn 40] 1300) = Inr bs) \<and>
   sum_list (map in_allocation [aliceIn 40]) \<le> getBalance ext0 VAULT \<and>
   isValid (validateBeneficiaryAllocations [alice0] 100) \<and>
   sum_list (map allocation [alice0]) \<le> 100"
proof -
  have h1: "sum_list (map in_allocation [aliceIn 150]) > getBalance ext0 VAULT"
    by code_simp
  have "case fst (setupBeneficiaries ext0 (setupClk 1000) (stored VAULT vault0) VAULT [aliceIn 40] 1300) of
          Inr bs \<Rightarrow> True | Inl e \<Rightarrow> False"
    by code_simp
  then obtain bs where
    h2: "fst (setupBeneficiaries ext0 (setupClk 1000) (stored VAULT vault0) VAULT [aliceIn 40] 1300) = Inr bs"
    by (auto split: sum.splits)
  have h3: "isValid (validateBeneficiaryAllocations [alice0] 100)"
    by code_simp
  from h1 h3
    setupBeneficiaries_overallocation
      [where inputs = "[aliceIn 150]" and ext = ext0 and vaultAddr = VAULT and now = "setupClk 1000"
         and st = "stored VAULT vault0" and dl = 1300 and bens = "[alice0]"
         and vaultBalance = 100]
  have a: "\<exists>f. setupBeneficiaries ext0 (setupClk 1000) (stored VAULT vault0) VAULT [aliceIn 150] 1300 =
          (Inl (ValidationError f), stored VAULT vault0)"
    and c: "sum_list (map allocation [alice0]) \<le> 100"
    by blast+
  from h2
    setupBeneficiaries_overallocation
      [where inputs = "[aliceIn 40]" and ext = ext0 and vaultAddr = VAULT and now = "setupClk 1000"
         and st = "stored VAULT vault0" and dl = 1300 and bs = bs]
  have b: "sum_list (map in_allocation [aliceIn 40]) \<le> getBalance ext0 VAULT"
    by blast
  from h1 h2 h3 a b c show ?thesis by blast
qed

text \<open>
  C8. A successful \<open>setupBeneficiaries\<close> on a stored vault replaces the stored
  beneficiary list by exactly the beneficiaries of that call, in the order supplied.
  After two successive successful calls the stored list is the one of the second call:
  an address of the first call that the second call does not supply is not in the
  stored record.
\<close>

theorem setupBeneficiaries_full_replace:
  assumes "loadVaultData st vaultAddr = Some v"
      and "setupBeneficiaries ext1 now1 st vaultAddr inputs1 dl1 = (Inr bs1, st1)"
      and "setupBeneficiaries ext2 now2 st1 vaultAddr inputs2 dl2 = (Inr bs2, st2)"
  shows "\<exists>v1 v2. loadVaultData st1 vaultAddr = Some v1 \<and>
           beneficiaries v1 = bs1 \<and>
           map address (beneficiaries v1) = map in_address inputs1 \<and>
           loadVaultData st2 vaultAddr = Some v2 \<and>
           beneficiaries v2 = bs2 \<and>
           map address (beneficiaries v2) = map in_address inputs2 \<and>
           map name (beneficiaries v2) = map in_name inputs2 \<and>
           map allocation (beneficiaries v2) = map in_allocation inputs2 \<and>
           (\<forall>a \<in> set (map in_address inputs1).
              a \<notin> set (map in_address inputs2) \<longrightarrow>
              a \<notin> set (map address (beneficiaries v2)))"
proof -
  from setupBeneficiaries_success [OF assms(2) assms(1)]
  obtain c1 where
    c1: "createAll ext1 now1 0 vaultAddr dl1 (getBalance ext1 vaultAddr) inputs1 = Inr c1" and
    b1: "bs1 = map fst c1" and
    l1: "loadVaultData st1 vaultAddr =
           Some (v\<lparr>beneficiaries := map fst c1, delegations := map snd c1,
                   lastUpdated := tWritten now1\<rparr>)"
    by blast
  from setupBeneficiaries_success [OF assms(3) l1]
  obtain c2 where
    c2: "createAll ext2 now2 0 vaultAddr dl2 (getBalance ext2 vaultAddr) inputs2 = Inr c2" and
    b2: "bs2 = map fst c2" and
    l2: "loadVaultData st2 vaultAddr =
           Some (v\<lparr>beneficiaries := map fst c2, delegations := map snd c2,
                   lastUpdated := tWritten now2\<rparr>)"
    by auto
  from createAll_shape [OF c1] have s1: "map address (map fst c1) = map in_address inputs1"
    by simp
  from createAll_shape [OF c2] have
    s2: "map address (map fst c2) = map in_address inputs2"
        "map name (map fst c2) = map in_name inputs2"
        "map allocation (map fst c2) = map in_allocation inputs2"
    by simp_all
  from s2(1) have s3: "set (map address (map fst c2)) = set (map in_address inputs2)"
    by (rule arg_cong)
  let ?v1 = "v\<lparr>beneficiaries := map fst c1, delegations := map snd c1, lastUpdated := tWritten now1\<rparr>"
  let ?v2 = "v\<lparr>beneficiaries := map fst c2, delegations := map snd c2, lastUpdated := tWritten now2\<rparr>"
  have "loadVaultData st1 vaultAddr = Some ?v1 \<and>
           beneficiaries ?v1 = bs1 \<and>
           map address (beneficiaries ?v1) = map in_address inputs1 \<and>
           loadVaultData st2 vaultAddr = Some ?v2 \<and>
           beneficiaries ?v2 = bs2 \<and>
           map address (beneficiaries ?v2) = map in_address inputs2 \<and>
           map name (beneficiaries ?v2) = map in_name inputs2 \<and>
           map allocation (beneficiaries ?v2) = map in_allocation inputs2 \<and>
           (\<forall>a \<in> set (map in_address inputs1).
              a \<notin> set (map in_address inputs2) \<longrightarrow>
              a \<notin> set (map address (beneficiaries ?v2)))"
    using l1 l2 b1 b2 s1 s2 s3 by (simp del: set_map map_map)
  then show ?thesis by blast
qed

theorem setupBeneficiaries_full_replace_witness:
  "loadVaultData (stored VAULT vault0) VAULT = Some vault0 \<and>
   (\<exists>bs1 st1 bs2 st2.
      setupBeneficiaries ext0 (setupClk 1000) (stored VAULT vault0) VAULT [aliceIn 40] 1300 = (Inr bs1, st1) \<and>
      setupBeneficiaries ext0 (setupClk 1100) st1 VAULT [bobIn 60] 1300 = (Inr bs2, st2) \<and>
      (\<exists>v2. loadVaultData st2 VAULT = Some v2 \<and>
         map address (beneficiaries v2) = [BOB] \<and> ALICE \<notin> set (map address (beneficiaries v2))))"
proof -
  have l: "loadVaultData (stored VAULT vault0) VAULT = Some vault0"
    by (rule load_stored [OF refl])
  obtain r1 st1 where
    r1: "setupBeneficiaries ext0 (setupClk 1000) (stored VAULT vault0) VAULT [aliceIn 40] 1300 = (r1, st1)"
    by (cases "setupBeneficiaries ext0 (setupClk 1000) (stored VAULT vault0) VAULT [aliceIn 40] 1300")
  have "case fst (setupBeneficiaries ext0 (setupClk 1000) (stored VAULT vault0) VAULT [aliceIn 40] 1300) of
          Inr bs \<Rightarrow> True | Inl e \<Rightarrow> False"
    by code_simp
  with r1 obtain bs1 where b1: "r1 = Inr bs1" by (auto split: sum.splits)
  obtain r2 st2 where
    r2: "setupBeneficiaries ext0 (setupClk 1100) st1 VAULT [bobIn 60] 1300 = (r2, st2)"
    by (cases "setupBeneficiaries ext0 (setupClk 1100) st1 VAULT [bobIn 60] 1300")
  have "case fst (setupBeneficiaries ext0 (setupClk 1100) Map.empty VAULT [bobIn 60] 1300) of
          Inr bs \<Rightarrow> True | Inl e \<Rightarrow> False"
    by code_simp
  then have "case fst (setupBeneficiaries ext0 (setupClk 1100) st1 VAULT [bobIn 60] 1300) of
          Inr bs \<Rightarrow> True | Inl e \<Rightarrow> False"
    using setupBeneficiaries_result_any_store [of ext0 "setupClk 1100" st1 VAULT "[bobIn 60]" 1300 Map.empty]
    by simp
  with r2 obtain bs2 where b2: "r2 = Inr bs2" by (auto split: sum.splits)
  have ne: "ALICE \<noteq> BOB" by code_simp
  from setupBeneficiaries_full_replace [OF l r1 [unfolded b1] r2 [unfolded b2]] ne
  have "\<exists>v2. loadVaultData st2 VAULT = Some v2 \<and>
         map address (beneficiaries v2) = [BOB] \<and> ALICE \<notin> set (map address (beneficiaries v2))"
    by (auto simp: aliceIn_def bobIn_def)
  then have "setupBeneficiaries ext0 (setupClk 1000) (stored VAULT vault0) VAULT [aliceIn 40] 1300 = (Inr bs1, st1) \<and>
      setupBeneficiaries ext0 (setupClk 1100) st1 VAULT [bobIn 60] 1300 = (Inr bs2, st2) \<and>
      (\<exists>v2. loadVaultData st2 VAULT = Some v2 \<and>
         map address (beneficiaries v2) = [BOB] \<and> ALICE \<notin> set (map address (beneficiaries v2)))"
    using r1 r2 b1 b2 by simp
  then have "\<exists>bs1 st1 bs2 st2.
      setupBeneficiaries ext0 (setupClk 1000) (stored VAULT vault0) VAULT [aliceIn 40] 1300 = (Inr bs1, st1) \<and>
      setupBeneficiaries ext0 (setupClk 1100) st1 VAULT [bobIn 60] 1300 = (Inr bs2, st2) \<and>
      (\<exists>v2. loadVaultData st2 VAULT = Some v2 \<and>
         map address (beneficiaries v2) = [BOB] \<and> ALICE \<notin> set (map address (beneficiaries v2)))"
    by (intro exI)
  with l show ?thesis by (rule conjI)
qed

section \<open>Check-in\<close>

text \<open>
  C4 as stated fails, in two ways. A new period of zero is given and yet not used: the
  check-in at clock 2000 with new period 0 stores the deadline 2300, the clock plus the
  configured five minutes, and not 2000. And the deadlines of two successive check-ins
  can go down: the check-in at clock 2000 with no new period stores 2300, the next one
  at clock 2100 with new period 1 stores 2160.
\<close>

theorem checkIn_deadline_zero_and_shorter_period:
  "map_sum id newDeadline
     (fst (checkIn ext0 clk0 (stored VAULT vault0) VAULT [alice0] (Some 0) OWNER_KEY)) = Inr 2300 \<and>
   map_option (nextDeadline \<circ> config)
     (loadVaultData
        (snd (checkIn ext0 clk0 (stored VAULT vault0) VAULT [alice0] (Some 0) OWNER_KEY)) VAULT)
     = Some 2300 \<and>
   tDeadline clk0 + periodSeconds 0 (checkInPeriodUnit (config vault0)) = 2000 \<and>
   map_option (nextDeadline \<circ> config)
     (loadVaultData
        (snd (checkIn ext0 clk0 (stored VAULT vault0) VAULT [alice0] None OWNER_KEY)) VAULT)
     = Some 2300 \<and>
   map_sum id newDeadline
     (fst (checkIn ext0 clk1
             (snd (checkIn ext0 clk0 (stored VAULT vault0) VAULT [alice0] None OWNER_KEY))
             VAULT [alice0] (Some 1) OWNER_KEY)) = Inr 2160 \<and>
   map_option (nextDeadline \<circ> config)
     (loadVaultData
        (snd (checkIn ext0 clk1
                (snd (checkIn ext0 clk0 (stored VAULT vault0) VAULT [alice0] None OWNER_KEY))
                VAULT [alice0] (Some 1) OWNER_KEY)) VAULT)
     = Some 2160 \<and>
   tDeadline clk0 \<le> tDeadline clk1"
proof -
  have l: "loadVaultData (stored VAULT vault0) VAULT = Some vault0"
    by (rule load_stored [OF refl])
  have v: "delegations vault0 = [aliceDelegation0]" by (simp add: vault0_def)
  have e: "tDeadline clk0 + periodSeconds (effectivePeriod (Some 0) (config vault0))
                                          (checkInPeriodUnit (config vault0)) = 2300"
    "tDeadline clk0 + periodSeconds (effectivePeriod None (config vault0))
                                    (checkInPeriodUnit (config vault0)) = 2300"
    "tDeadline clk0 + periodSeconds 0 (checkInPeriodUnit (config vault0)) = 2000"
    "tDeadline clk0 \<le> tDeadline clk1"
    by code_simp+
  from checkIn_alice0 [OF l v, of clk0 "Some 0"] e(1)
  obtain r0 st0 where
    c0: "checkIn ext0 clk0 (stored VAULT vault0) VAULT [alice0] (Some 0) OWNER_KEY = (Inr r0, st0)"
        "newDeadline r0 = 2300"
        "map_option (nextDeadline \<circ> config) (loadVaultData st0 VAULT) = Some 2300"
    by auto
  from checkIn_alice0 [OF l v, of clk0 None] e(2)
  obtain r1 st1 v1 where
    c1: "checkIn ext0 clk0 (stored VAULT vault0) VAULT [alice0] None OWNER_KEY = (Inr r1, st1)"
        "newDeadline r1 = 2300" and
    l1: "loadVaultData st1 VAULT = Some v1" and
    v1: "delegations v1 = [aliceDelegation0]"
        "checkInPeriodUnit (config v1) = checkInPeriodUnit (config vault0)"
    using v by auto
  have e2: "tDeadline clk1 + periodSeconds (effectivePeriod (Some 1) (config v1))
                                           (checkInPeriodUnit (config v1)) = 2160"
    unfolding v1(2) by (simp add: effectivePeriod_def vault0_def config0_def clk1_def)
  from checkIn_alice0 [OF l1 v1(1), of clk1 "Some 1"] e2
  obtain r2 st2 where
    c2: "checkIn ext0 clk1 st1 VAULT [alice0] (Some 1) OWNER_KEY = (Inr r2, st2)"
        "newDeadline r2 = 2160"
        "map_option (nextDeadline \<circ> config) (loadVaultData st2 VAULT) = Some 2160"
    by auto
  from c1 l1 have n1: "map_option (nextDeadline \<circ> config) (loadVaultData st1 VAULT) = Some 2300"
    using checkIn_alice0 [OF l v, of clk0 None] e(2) by auto
  from c0 c1 c2 n1 e(3,4) show ?thesis by simp
qed

text \<open>
  C4, amended. Let the clock reading, the period in seconds and their sum be safe
  integers. A successful \<open>checkIn\<close> stores as \<open>nextDeadline\<close>, and reports as the new
  deadline, the clock reading of \<open>getDeadlineFromPeriod\<close> plus the period in seconds,
  the period being the new period when one is given and is not zero and the configured
  period otherwise, counted in the configured unit either way; that period becomes the
  configured one and the unit stays. Success implies that the vault had a delegation
  that was not disabled. A second successful check-in on the resulting store gives its
  own clock reading plus its own period in the same way, and its deadline is not before
  the first one if the clock has not run backwards and its period is not shorter than
  that of the first.
\<close>

theorem checkIn_deadline_effective_period:
  assumes "loadVaultData st vaultAddr = Some v"
      and "checkIn ext1 c1 st vaultAddr bens1 newPeriod1 key1 = (Inr r1, st1)"
      and "exactDeadline (tDeadline c1) (effectivePeriod newPeriod1 (config v))
             (checkInPeriodUnit (config v))"
  shows "\<exists>v1. loadVaultData st1 vaultAddr = Some v1 \<and>
           nextDeadline (config v1) =
             tDeadline c1 + periodSeconds (effectivePeriod newPeriod1 (config v))
                                          (checkInPeriodUnit (config v)) \<and>
           newDeadline r1 = nextDeadline (config v1) \<and>
           checkInPeriod (config v1) = effectivePeriod newPeriod1 (config v) \<and>
           checkInPeriodUnit (config v1) = checkInPeriodUnit (config v) \<and>
           getActiveDelegations st vaultAddr \<noteq> [] \<and>
           (\<forall>ext2 c2 bens2 newPeriod2 key2 r2 st2.
              checkIn ext2 c2 st1 vaultAddr bens2 newPeriod2 key2 = (Inr r2, st2) \<longrightarrow>
              exactDeadline (tDeadline c2) (effectivePeriod newPeriod2 (config v1))
                (checkInPeriodUnit (config v1)) \<longrightarrow>
              (\<exists>v2. loadVaultData st2 vaultAddr = Some v2 \<and>
                 nextDeadline (config v2) =
                   tDeadline c2 + periodSeconds (effectivePeriod newPeriod2 (config v1))
                                                (checkInPeriodUnit (config v)) \<and>
                 newDeadline r2 = nextDeadline (config v2) \<and>
                 (tDeadline c1 \<le> tDeadline c2 \<and>
                  effectivePeriod newPeriod1 (config v) \<le> effectivePeriod newPeriod2 (config v1)
                    \<longrightarrow> nextDeadline (config v1) \<le> nextDeadline (config v2))))"
proof -
  let ?u = "checkInPeriodUnit (config v)"
  let ?p1 = "effectivePeriod newPeriod1 (config v)"
  have mono: "\<And>p q. p \<le> q \<Longrightarrow> periodSeconds p ?u \<le> periodSeconds q ?u"
    by (cases ?u) simp_all
  from checkIn_success [OF assms(2) assms(1)]
  obtain v1 where
    l1: "loadVaultData st1 vaultAddr = Some v1" and
    d1: "nextDeadline (config v1) = tDeadline c1 + periodSeconds ?p1 ?u" and
    n1: "newDeadline r1 = nextDeadline (config v1)" and
    p1: "checkInPeriod (config v1) = ?p1" and
    u1: "checkInPeriodUnit (config v1) = ?u" and
    a1: "getActiveDelegations st vaultAddr \<noteq> []"
    by (auto simp: effectivePeriod_case getDeadlineFromPeriod_seconds)
  have second: "\<exists>v2. loadVaultData st2 vaultAddr = Some v2 \<and>
                 nextDeadline (config v2) =
                   tDeadline c2 + periodSeconds (effectivePeriod newPeriod2 (config v1)) ?u \<and>
                 newDeadline r2 = nextDeadline (config v2) \<and>
                 (tDeadline c1 \<le> tDeadline c2 \<and>
                  ?p1 \<le> effectivePeriod newPeriod2 (config v1)
                    \<longrightarrow> nextDeadline (config v1) \<le> nextDeadline (config v2))"
    if c: "checkIn ext2 c2 st1 vaultAddr bens2 newPeriod2 key2 = (Inr r2, st2)"
    for ext2 c2 bens2 newPeriod2 key2 r2 st2
  proof -
    let ?p2 = "effectivePeriod newPeriod2 (config v1)"
    from checkIn_success [OF c l1] u1
    obtain v2 where
      l2: "loadVaultData st2 vaultAddr = Some v2" and
      d2: "nextDeadline (config v2) = tDeadline c2 + periodSeconds ?p2 ?u" and
      n2: "newDeadline r2 = nextDeadline (config v2)"
      by (auto simp: effectivePeriod_case getDeadlineFromPeriod_seconds)
    have "nextDeadline (config v1) \<le> nextDeadline (config v2)"
      if "tDeadline c1 \<le> tDeadline c2" "?p1 \<le> ?p2"
      using d1 d2 that mono [of ?p1 ?p2] by simp
    with l2 d2 n2 show ?thesis by blast
  qed
  from l1 d1 n1 p1 u1 a1 second show ?thesis by blast
qed

theorem checkIn_deadline_effective_period_witness:
  "loadVaultData (stored VAULT vault0) VAULT = Some vault0 \<and>
   exactDeadline (tDeadline clk0) (effectivePeriod None (config vault0))
     (checkInPeriodUnit (config vault0)) \<and>
   tDeadline clk0 \<le> tDeadline clk1 \<and>
   (\<exists>r1 st1 r2 st2 v1 v2.
      checkIn ext0 clk0 (stored VAULT vault0) VAULT [alice0] None OWNER_KEY = (Inr r1, st1) \<and>
      checkIn ext0 clk1 st1 VAULT [alice0] (Some 10) OWNER_KEY = (Inr r2, st2) \<and>
      loadVaultData st1 VAULT = Some v1 \<and> loadVaultData st2 VAULT = Some v2 \<and>
      exactDeadline (tDeadline clk1) (effectivePeriod (Some 10) (config v1))
        (checkInPeriodUnit (config v1)) \<and>
      effectivePeriod None (config vault0) \<le> effectivePeriod (Some 10) (config v1) \<and>
      nextDeadline (config v1) = 2300 \<and> newDeadline r1 = 2300 \<and>
      nextDeadline (config v2) = 2700 \<and> newDeadline r2 = 2700 \<and>
      nextDeadline (config v1) \<le> nextDeadline (config v2))"
proof -
  have l: "loadVaultData (stored VAULT vault0) VAULT = Some vault0"
    by (rule load_stored [OF refl])
  have v: "delegations vault0 = [aliceDelegation0]" by (simp add: vault0_def)
  have x: "exactDeadline (tDeadline clk0) (effectivePeriod None (config vault0))
             (checkInPeriodUnit (config vault0))"
    by code_simp
  have t: "tDeadline clk0 \<le> tDeadline clk1" by code_simp
  have e: "tDeadline clk0 + periodSeconds (effectivePeriod None (config vault0))
                                          (checkInPeriodUnit (config vault0)) = 2300"
    "effectivePeriod None (config vault0) = 5"
    "checkInPeriodUnit (config vault0) = MINUTES"
    "tDeadline clk1 = 2100"
    by code_simp+
  from checkIn_alice0 [OF l v, of clk0 None]
  obtain r1 st1 where
    c1: "checkIn ext0 clk0 (stored VAULT vault0) VAULT [alice0] None OWNER_KEY = (Inr r1, st1)"
    by blast
  from checkIn_deadline_effective_period [OF l c1 x]
  obtain v1 where
    l1: "loadVaultData st1 VAULT = Some v1" and
    d1': "nextDeadline (config v1) =
            tDeadline clk0 + periodSeconds (effectivePeriod None (config vault0))
                                           (checkInPeriodUnit (config vault0))"
         "newDeadline r1 = nextDeadline (config v1)" and
    p1: "checkInPeriod (config v1) = effectivePeriod None (config vault0)"
        "checkInPeriodUnit (config v1) = checkInPeriodUnit (config vault0)" and
    nxt: "\<forall>ext2 c2 bens2 newPeriod2 key2 r2 st2.
            checkIn ext2 c2 st1 VAULT bens2 newPeriod2 key2 = (Inr r2, st2) \<longrightarrow>
            exactDeadline (tDeadline c2) (effectivePeriod newPeriod2 (config v1))
              (checkInPeriodUnit (config v1)) \<longrightarrow>
            (\<exists>v2. loadVaultData st2 VAULT = Some v2 \<and>
               nextDeadline (config v2) =
                 tDeadline c2 + periodSeconds (effectivePeriod newPeriod2 (config v1))
                                              (checkInPeriodUnit (config vault0)) \<and>
               newDeadline r2 = nextDeadline (config v2) \<and>
               (tDeadline clk0 \<le> tDeadline c2 \<and>
                effectivePeriod None (config vault0) \<le> effectivePeriod newPeriod2 (config v1)
                  \<longrightarrow> nextDeadline (config v1) \<le> nextDeadline (config v2)))"
    by (elim exE conjE)
  from d1' e have d1: "nextDeadline (config v1) = 2300" "newDeadline r1 = 2300"
    by simp_all
  from checkIn_success [OF c1 l] l1 v have dv1: "delegations v1 = [aliceDelegation0]"
    by auto
  from checkIn_alice0 [OF l1 dv1, of clk1 "Some 10"]
  obtain r2 st2 where
    c2: "checkIn ext0 clk1 st1 VAULT [alice0] (Some 10) OWNER_KEY = (Inr r2, st2)"
    by blast
  have p2: "effectivePeriod (Some 10) (config v1) = 10"
    by (simp add: effectivePeriod_def)
  have x2: "exactDeadline (tDeadline clk1) (effectivePeriod (Some 10) (config v1))
              (checkInPeriodUnit (config v1))"
    unfolding p2 p1 e by (simp add: exactDeadline_def safeInteger_def)
  have le: "effectivePeriod None (config vault0) \<le> effectivePeriod (Some 10) (config v1)"
    unfolding p2 e by simp
  from nxt [rule_format, OF c2 x2] t le
  obtain v2 where
    l2: "loadVaultData st2 VAULT = Some v2" and
    d2': "nextDeadline (config v2) =
            tDeadline clk1 + periodSeconds (effectivePeriod (Some 10) (config v1))
                                           (checkInPeriodUnit (config vault0))"
         "newDeadline r2 = nextDeadline (config v2)"
         "nextDeadline (config v1) \<le> nextDeadline (config v2)"
    by blast
  from d2' have d2: "nextDeadline (config v2) = 2700" "newDeadline r2 = 2700"
      "nextDeadline (config v1) \<le> nextDeadline (config v2)"
    unfolding p2 e by simp_all
  from c1 c2 l1 l2 x2 le d1 d2
  have "checkIn ext0 clk0 (stored VAULT vault0) VAULT [alice0] None OWNER_KEY = (Inr r1, st1) \<and>
      checkIn ext0 clk1 st1 VAULT [alice0] (Some 10) OWNER_KEY = (Inr r2, st2) \<and>
      loadVaultData st1 VAULT = Some v1 \<and> loadVaultData st2 VAULT = Some v2 \<and>
      exactDeadline (tDeadline clk1) (effectivePeriod (Some 10) (config v1))
        (checkInPeriodUnit (config v1)) \<and>
      effectivePeriod None (config vault0) \<le> effectivePeriod (Some 10) (config v1) \<and>
      nextDeadline (config v1) = 2300 \<and> newDeadline r1 = 2300 \<and>
      nextDeadline (config v2) = 2700 \<and> newDeadline r2 = 2700 \<and>
      nextDeadline (config v1) \<le> nextDeadline (config v2)"
    by (intro conjI)
  then have "\<exists>r1 st1 r2 st2 v1 v2.
      checkIn ext0 clk0 (stored VAULT vault0) VAULT [alice0] None OWNER_KEY = (Inr r1, st1) \<and>
      checkIn ext0 clk1 st1 VAULT [alice0] (Some 10) OWNER_KEY = (Inr r2, st2) \<and>
      loadVaultData st1 VAULT = Some v1 \<and> loadVaultData st2 VAULT = Some v2 \<and>
      exactDeadline (tDeadline clk1) (effectivePeriod (Some 10) (config v1))
        (checkInPeriodUnit (config v1)) \<and>
      effectivePeriod None (config vault0) \<le> effectivePeriod (Some 10) (config v1) \<and>
      nextDeadline (config v1) = 2300 \<and> newDeadline r1 = 2300 \<and>
      nextDeadline (config v2) = 2700 \<and> newDeadline r2 = 2700 \<and>
      nextDeadline (config v1) \<le> nextDeadline (config v2)"
    by (intro exI)
  with l x t show ?thesis by (intro conjI)
qed

text \<open>
  C10 (the code departs from the claim). After a completed check-in the store should
  hold one fresh delegation per beneficiary with the new deadline. \<open>checkIn\<close> however
  writes back the record it loaded before the disable loop: in the instance below the
  check-in succeeds, reports one delegation disabled and one created and stores the new
  deadline 2300, yet the only stored delegation is the one of the previous epoch
  (deadline 1300, not marked disabled); the delegation created by the inner
  \<open>setupBeneficiaries\<close> is gone.
\<close>

theorem checkIn_restores_prior_epoch:
  "(case fst (checkIn ext0 clk0 (stored VAULT vault0) VAULT [alice0] None OWNER_KEY) of
      Inr r \<Rightarrow> disabledDelegationCount r = 1 \<and> createdDelegationCount r = 1 \<and>
               newDeadline r = 2300
    | Inl e \<Rightarrow> False) \<and>
   map_option (nextDeadline \<circ> config)
     (loadVaultData (snd (checkIn ext0 clk0 (stored VAULT vault0) VAULT [alice0] None OWNER_KEY))
        VAULT)
     = Some 2300 \<and>
   map_option delegations
     (loadVaultData (snd (checkIn ext0 clk0 (stored VAULT vault0) VAULT [alice0] None OWNER_KEY))
        VAULT)
     = Some [aliceDelegation0] \<and>
   deadline aliceDelegation0 = 1300 \<and> \<not> isDisabled aliceDelegation0"
proof -
  have l: "loadVaultData (stored VAULT vault0) VAULT = Some vault0"
    by (rule load_stored [OF refl])
  have v: "delegations vault0 = [aliceDelegation0]" by (simp add: vault0_def)
  have d: "tDeadline clk0 + periodSeconds (effectivePeriod None (config vault0))
                                          (checkInPeriodUnit (config vault0)) = 2300"
    by code_simp
  have x: "deadline aliceDelegation0 = 1300 \<and> \<not> isDisabled aliceDelegation0"
    by (simp add: aliceDelegation0_def)
  from checkIn_alice0 [OF l v, of clk0 None] d
  obtain r st' where
    c: "checkIn ext0 clk0 (stored VAULT vault0) VAULT [alice0] None OWNER_KEY = (Inr r, st')" and
    r: "disabledDelegationCount r = 1" "createdDelegationCount r = 1" "newDeadline r = 2300" and
    s: "map_option (nextDeadline \<circ> config) (loadVaultData st' VAULT) = Some 2300"
       "map_option delegations (loadVaultData st' VAULT) = Some (delegations vault0)"
    by auto
  from c r s v x show ?thesis by simp
qed




section \<open>The stored delegation list\<close>




section \<open>The composed validator\<close>

text \<open>
  C9 (the code departs from the claim). \<open>validateVaultSetup\<close> checks the owner address,
  the period, the minimum balance, the allocations and duplicate addresses, in this
  order, and never calls \<open>validateBeneficiaryName\<close>, which \<open>setupBeneficiaries\<close> does
  call for every beneficiary. A beneficiary whose name is empty, or 51 characters long,
  is rejected by \<open>validateBeneficiaryName\<close> and passes the composed validator. (The
  owner address is written with its checksum, as the address check demands.)
\<close>

theorem validateVaultSetup_ignores_names:
  "validateAddress (isAddress ext0) OWNER = valid \<and>
   \<not> isValid (validateBeneficiaryName (name namelessAlice)) \<and>
   validateVaultSetup (isAddress ext0) OWNER [namelessAlice] 1000000000000000 30 DAYS =
     \<lparr>isValid = True, error = None, warnings = None\<rparr> \<and>
   \<not> isValid (validateBeneficiaryName (name longNamedAlice)) \<and>
   validateVaultSetup (isAddress ext0) OWNER [longNamedAlice] 1000000000000000 30 DAYS =
     \<lparr>isValid = True, error = None, warnings = None\<rparr>"
  by code_simp

section \<open>Claims\<close>

text \<open>
  C3 (the code departs from the claim). \<open>simpleClaim\<close> rejects a disabled delegation
  itself and hands every other claim to \<open>claimInheritance\<close>, which first looks the vault
  up under \<^verbatim>\<open>params.signedDelegation.delegation.from\<close>. The object it is given is the
  stored delegation spread out with its signature, which has no property
  \<^verbatim>\<open>delegation\<close>: the access throws before the deadline and the claimed flag are looked
  at. For the stored vault with Alice's delegation not disabled, the claim ends with
  \<open>TypeError\<close> and the store untouched when her claimed flag is set and the deadline
  (1300) has passed, where the claim says \<open>AlreadyClaimed\<close>; when the deadline is 100
  seconds ahead, where the claim says \<open>TooEarly\<close>; and when the deadline has passed and
  she has not claimed, where the claim succeeds according to the claim (so no claim
  ever succeeds, and no second attempt meets \<open>AlreadyClaimed\<close>). Only the rejection of a
  disabled delegation is as claimed.
\<close>

theorem simpleClaim_throws_before_guards:
  "simpleClaim ext0 clkLate (stored VAULT vaultClaimed) VAULT ALICE =
     (Inl TypeError, stored VAULT vaultClaimed) \<and>
   simpleClaim ext0 clkEarly (stored VAULT vault0) VAULT ALICE =
     (Inl TypeError, stored VAULT vault0) \<and>
   simpleClaim ext0 clkLate (stored VAULT vault0) VAULT ALICE =
     (Inl TypeError, stored VAULT vault0) \<and>
   simpleClaim ext0 clkLate (stored VAULT vaultDisabled) VAULT ALICE =
     (Inl DelegationDisabled, stored VAULT vaultDisabled) \<and>
   map hasClaimed (beneficiaries vaultClaimed) = [True] \<and>
   nextDeadline (config vaultClaimed) \<le> tPassed clkLate \<and>
   nextDeadline (config vault0) - tRemaining clkEarly = 100 \<and>
   map isDisabled (delegations vault0) = [False]"
proof -
  have l: "loadVaultData (stored VAULT vaultClaimed) VAULT = Some vaultClaimed"
    "loadVaultData (stored VAULT vault0) VAULT = Some vault0"
    "loadVaultData (stored VAULT vaultDisabled) VAULT = Some vaultDisabled"
    by (rule load_stored [OF refl])+
  have b: "find (\<lambda>b. toLowerCase (address b) = toLowerCase ALICE) (beneficiaries vaultClaimed)
             = Some (alice0\<lparr>hasClaimed := True\<rparr>)"
    "find (\<lambda>b. toLowerCase (address b) = toLowerCase ALICE) (beneficiaries vault0) = Some alice0"
    "find (\<lambda>b. toLowerCase (address b) = toLowerCase ALICE) (beneficiaries vaultDisabled)
       = Some alice0"
    by code_simp+
  have d: "find (\<lambda>d. toLowerCase (beneficiaryAddress d) = toLowerCase ALICE)
             (delegations vaultClaimed) = Some aliceDelegation0"
    "find (\<lambda>d. toLowerCase (beneficiaryAddress d) = toLowerCase ALICE)
             (delegations vault0) = Some aliceDelegation0"
    "find (\<lambda>d. toLowerCase (beneficiaryAddress d) = toLowerCase ALICE)
             (delegations vaultDisabled) = Some (aliceDelegation0\<lparr>isDisabled := True\<rparr>)"
    by code_simp+
  have f: "delegationFrom ext0 (fst (sd_delegation aliceDelegation0, signature aliceDelegation0))
             = None"
    by code_simp
  have n: "\<not> isDisabled aliceDelegation0" "isDisabled (aliceDelegation0\<lparr>isDisabled := True\<rparr>)"
    by code_simp+
  have c1: "simpleClaim ext0 clkLate (stored VAULT vaultClaimed) VAULT ALICE =
              (Inl TypeError, stored VAULT vaultClaimed)"
    using simpleClaim_guards [OF l(1) b(1) d(1), of ext0 clkLate] n(1)
      claimInheritance_no_vault_address [OF f]
    by simp
  have c2: "simpleClaim ext0 clkEarly (stored VAULT vault0) VAULT ALICE =
              (Inl TypeError, stored VAULT vault0)"
    using simpleClaim_guards [OF l(2) b(2) d(2), of ext0 clkEarly] n(1)
      claimInheritance_no_vault_address [OF f]
    by simp
  have c3: "simpleClaim ext0 clkLate (stored VAULT vault0) VAULT ALICE =
              (Inl TypeError, stored VAULT vault0)"
    using simpleClaim_guards [OF l(2) b(2) d(2), of ext0 clkLate] n(1)
      claimInheritance_no_vault_address [OF f]
    by simp
  have c4: "simpleClaim ext0 clkLate (stored VAULT vaultDisabled) VAULT ALICE =
              (Inl DelegationDisabled, stored VAULT vaultDisabled)"
    using simpleClaim_guards [OF l(3) b(3) d(3), of ext0 clkLate] n(2)
    by simp
  have v: "map hasClaimed (beneficiaries vaultClaimed) = [True]"
    "nextDeadline (config vaultClaimed) \<le> tPassed clkLate"
    "nextDeadline (config vault0) - tRemaining clkEarly = 100"
    "map isDisabled (delegations vault0) = [False]"
    by code_simp+
  from c1 c2 c3 c4 v show ?thesis by (intro conjI)
qed

end
